theory Spec2Isabelle
  imports Main
begin

text \<open>
  A shallow embedding of \<^verbatim>\<open>restapi/configure_kwsk_actions.go\<close>: the handlers that
  map an action onto a Configuration and a Route of the serving platform, and the
  init/run bridge that invokes it. The platform client, the HTTP transport, the JSON
  codec, the Unicode case tables and the \<^verbatim>\<open>--istio\<close> flag live outside the file; they are the fields of an
  environment record that every handler takes, so each theorem holds for any platform
  behaviour. Output to the console (\<^verbatim>\<open>fmt.Printf\<close>, \<^verbatim>\<open>fmt.Println\<close>) is left out.
\<close>

section \<open>Name Normalizer\<close>

text \<open>
  Go strings are byte sequences; they are modelled as HOL strings (lists of 8-bit
  characters), and a rune is a natural number. \<open>sanitizeActionName\<close> calls two functions
  of Go's standard library, which are modelled as the library defines them.

  \<^verbatim>\<open>strings.ToLower(s)\<close> is \<^verbatim>\<open>strings.Map(unicode.ToLower, s)\<close>: the string is decoded
  rune by rune as a \<^verbatim>\<open>range\<close> loop does, every rune is mapped, and the results are encoded
  again. A byte that starts no well-formed UTF-8 sequence decodes to \<^verbatim>\<open>utf8.RuneError\<close>
  (U+FFFD) with width 1, so it comes out as the three bytes of U+FFFD.
  \<^verbatim>\<open>unicode.ToLower\<close> shifts \<open>A\<close> to \<open>Z\<close> by 32, keeps every other ASCII rune, and looks
  any other rune up in the case tables of the Unicode version the library was built with.
  These tables are not part of the repository: they are the parameter \<open>tbl\<close>, which
  gives the lower-case rune of a rune above U+007F.
\<close>

definition utf8_RuneError :: nat where
  "utf8_RuneError = 0xFFFD"

text \<open>\<^verbatim>\<open>utf8.ValidRune\<close>: up to U+10FFFF and not a surrogate half.\<close>

definition utf8_ValidRune :: "nat \<Rightarrow> bool" where
  "utf8_ValidRune r \<longleftrightarrow> r < 0xD800 \<or> (0xDFFF < r \<and> r \<le> 0x10FFFF)"

text \<open>
  \<^verbatim>\<open>utf8.EncodeRune\<close>: one to four bytes; a rune that is out of range or a surrogate half
  is written as U+FFFD.
\<close>

definition utf8_EncodeRune :: "nat \<Rightarrow> nat list" where
  "utf8_EncodeRune r =
     (if r \<le> 0x7F then [r]
      else if r \<le> 0x7FF then [0xC0 + r div 64, 0x80 + r mod 64]
      else if r > 0x10FFFF \<or> (0xD800 \<le> r \<and> r \<le> 0xDFFF) then [0xEF, 0xBF, 0xBD]
      else if r \<le> 0xFFFF then
        [0xE0 + r div 4096, 0x80 + (r div 64) mod 64, 0x80 + r mod 64]
      else
        [0xF0 + r div 262144, 0x80 + (r div 4096) mod 64, 0x80 + (r div 64) mod 64,
         0x80 + r mod 64])"

text \<open>
  \<^verbatim>\<open>utf8.DecodeRuneInString\<close>: the first byte fixes the length of the sequence and the
  range its second byte must lie in (\<open>acceptLo\<close> to \<open>acceptHi\<close>, which excludes overlong
  forms, surrogate halves and runes above U+10FFFF); the remaining bytes are continuation
  bytes. Anything else is \<^verbatim>\<open>RuneError\<close> of width 1.
\<close>

definition continuationByte :: "nat \<Rightarrow> bool" where
  "continuationByte b \<longleftrightarrow> 0x80 \<le> b \<and> b \<le> 0xBF"

definition acceptLo :: "nat \<Rightarrow> nat" where
  "acceptLo s0 = (if s0 = 0xE0 then 0xA0 else if s0 = 0xF0 then 0x90 else 0x80)"

definition acceptHi :: "nat \<Rightarrow> nat" where
  "acceptHi s0 = (if s0 = 0xED then 0x9F else if s0 = 0xF4 then 0x8F else 0xBF)"

definition rune2 :: "nat \<Rightarrow> nat \<Rightarrow> nat" where
  "rune2 s0 s1 = (s0 - 0xC0) * 64 + (s1 - 0x80)"

definition rune3 :: "nat \<Rightarrow> nat \<Rightarrow> nat \<Rightarrow> nat" where
  "rune3 s0 s1 s2 = (s0 - 0xE0) * 4096 + (s1 - 0x80) * 64 + (s2 - 0x80)"

definition rune4 :: "nat \<Rightarrow> nat \<Rightarrow> nat \<Rightarrow> nat \<Rightarrow> nat" where
  "rune4 s0 s1 s2 s3 = (s0 - 0xF0) * 262144 + (s1 - 0x80) * 4096 + (s2 - 0x80) * 64 + (s3 - 0x80)"

fun utf8_DecodeRune :: "nat list \<Rightarrow> nat \<times> nat" where
  "utf8_DecodeRune [] = (utf8_RuneError, 0)"
| "utf8_DecodeRune (s0 # rest) =
     (if s0 < 0x80 then (s0, 1)
      else if 0xC2 \<le> s0 \<and> s0 \<le> 0xDF then
        (case rest of
           s1 # _ \<Rightarrow>
             if acceptLo s0 \<le> s1 \<and> s1 \<le> acceptHi s0
             then (rune2 s0 s1, 2)
             else (utf8_RuneError, 1)
         | _ \<Rightarrow> (utf8_RuneError, 1))
      else if 0xE0 \<le> s0 \<and> s0 \<le> 0xEF then
        (case rest of
           s1 # s2 # _ \<Rightarrow>
             if acceptLo s0 \<le> s1 \<and> s1 \<le> acceptHi s0 \<and> continuationByte s2
             then (rune3 s0 s1 s2, 3)
             else (utf8_RuneError, 1)
         | _ \<Rightarrow> (utf8_RuneError, 1))
      else if 0xF0 \<le> s0 \<and> s0 \<le> 0xF4 then
        (case rest of
           s1 # s2 # s3 # _ \<Rightarrow>
             if acceptLo s0 \<le> s1 \<and> s1 \<le> acceptHi s0 \<and> continuationByte s2
                \<and> continuationByte s3
             then (rune4 s0 s1 s2 s3, 4)
             else (utf8_RuneError, 1)
         | _ \<Rightarrow> (utf8_RuneError, 1))
      else (utf8_RuneError, 1))"

text \<open>The runes a \<^verbatim>\<open>for _, c := range s\<close> loop sees.\<close>

function decodeRunes :: "nat list \<Rightarrow> nat list" where
  "decodeRunes [] = []"
| "decodeRunes (b # bs) =
     (case utf8_DecodeRune (b # bs) of (c, width) \<Rightarrow> c # decodeRunes (drop width (b # bs)))"
  by pat_completeness auto
termination
  apply (relation "measure length")
   apply simp
  subgoal for b bs c width
    by (cases width) (auto split: if_splits list.splits)
  done

text \<open>
  \<^verbatim>\<open>strings.Map(mapping, s)\<close>. The mappings used here never return a negative rune, so
  no rune is dropped.
\<close>

definition strings_Map :: "(nat \<Rightarrow> nat) \<Rightarrow> nat list \<Rightarrow> nat list" where
  "strings_Map mapping s = concat (map (\<lambda>c. utf8_EncodeRune (mapping c)) (decodeRunes s))"

text \<open>
  \<^verbatim>\<open>
  func ToLower(r rune) rune {
      if r <= MaxASCII {
          if 'A' <= r && r <= 'Z' { r += 'a' - 'A' }
          return r
      }
      return To(LowerCase, r)
  }
  \<close>
\<close>

definition unicode_ToLower :: "(nat \<Rightarrow> nat) \<Rightarrow> nat \<Rightarrow> nat" where
  "unicode_ToLower tbl r =
     (if r \<le> 0x7F then (if 0x41 \<le> r \<and> r \<le> 0x5A then r + 0x20 else r)
      else tbl r)"

definition strings_ToLower :: "(nat \<Rightarrow> nat) \<Rightarrow> string \<Rightarrow> string" where
  "strings_ToLower tbl s =
     map char_of (strings_Map (unicode_ToLower tbl) (map of_char s))"

text \<open>
  \<^verbatim>\<open>strings.Replace(s, old, new, n)\<close> replaces the first \<open>n\<close> non-overlapping occurrences
  of a non-empty \<open>old\<close>, all of them when \<open>n < 0\<close>.
\<close>

function strings_Replace :: "string \<Rightarrow> string \<Rightarrow> string \<Rightarrow> int \<Rightarrow> string" where
  "strings_Replace [] old new n = []"
| "strings_Replace (c # cs) old new n =
     (if n \<noteq> 0 \<and> old \<noteq> [] \<and> take (length old) (c # cs) = old
      then new @ strings_Replace (drop (length old) (c # cs)) old new (n - 1)
      else c # strings_Replace cs old new n)"
  by pat_completeness auto
termination
  by (relation "measure (\<lambda>(s, old, new, n). length s)") auto

text \<open>
  \<^verbatim>\<open>
  func sanitizeActionName(name string) string {
      return strings.Replace(strings.ToLower(name), " ", "-", -1)
  }
  \<close>
\<close>

definition sanitizeActionName :: "(nat \<Rightarrow> nat) \<Rightarrow> string \<Rightarrow> string" where
  "sanitizeActionName tbl name =
     strings_Replace (strings_ToLower tbl name) '' '' ''-'' (- 1)"

text \<open>
  \<^verbatim>\<open>
  func namespaceOrDefault(namespace string) string {
      if namespace == "_" { namespace = "default" }
      return namespace
  }
  \<close>
\<close>

definition namespaceOrDefault :: "string \<Rightarrow> string" where
  "namespaceOrDefault namespace = (if namespace = ''_'' then ''default'' else namespace)"

section \<open>Data model\<close>

subsection \<open>Platform resources\<close>

text \<open>
  Only the fields the handlers read or write are kept. A Go map is a partial function;
  reading a missing key gives the zero value, here the empty string.
\<close>

record objectMeta =
  om_Name :: string
  om_Namespace :: string
  om_Annotations :: "string \<rightharpoonup> string"

definition emptyObjectMeta :: objectMeta where
  "emptyObjectMeta = \<lparr>om_Name = [], om_Namespace = [], om_Annotations = Map.empty\<rparr>"

definition annotation :: "(string \<rightharpoonup> string) \<Rightarrow> string \<Rightarrow> string" where
  "annotation m k = (case m k of None \<Rightarrow> [] | Some v \<Rightarrow> v)"

record container =
  c_Image :: string

record revisionSpec =
  rs_Container :: container

record revisionTemplateSpec =
  rts_ObjectMeta :: objectMeta
  rts_Spec :: revisionSpec

record configurationSpec =
  cs_RevisionTemplate :: revisionTemplateSpec

record configuration =
  cfg_ObjectMeta :: objectMeta
  cfg_Spec :: configurationSpec

record trafficTarget =
  tt_ConfigurationName :: string
  tt_Percent :: int

record routeSpec =
  rsp_Traffic :: "trafficTarget list"

record routeStatus =
  rst_Domain :: string

record route =
  rt_ObjectMeta :: objectMeta
  rt_Spec :: routeSpec
  rt_Status :: routeStatus

subsection \<open>API models\<close>

text \<open>
  A Go pointer field is an option. \<open>'j\<close> is the type of decoded JSON values
  (\<^verbatim>\<open>interface{}\<close> in the source).
\<close>

record actionExec =
  ex_Image :: string
  ex_Kind :: string
  ex_Code :: string

record action =
  a_Name :: "string option"
  a_Namespace :: "string option"
  a_Version :: "string option"
  a_Exec :: "actionExec option"

record actionPut =
  ap_Version :: string
  ap_Exec :: "actionExec option"

record errorMessage =
  em_Error :: "string option"

record 'j activationResult =
  ar_Result :: 'j
  ar_Success :: bool

record 'j activation =
  act_ActivationID :: "string option"
  act_Name :: "string option"
  act_Namespace :: "string option"
  act_Response :: "'j activationResult option"
  act_Logs :: "string list"

subsection \<open>Request parameters and responders\<close>

record deleteActionParams =
  dp_ActionName :: string
  dp_Namespace :: string

record updateActionParams =
  up_ActionName :: string
  up_Namespace :: string
  up_Action :: actionPut

record getActionByNameParams =
  gp_ActionName :: string
  gp_Namespace :: string

record getAllActionsParams =
  lp_Namespace :: string

record 'j invokeActionParams =
  ip_ActionName :: string
  ip_Namespace :: string
  ip_Payload :: "'j option"

datatype deleteActionResponder =
    DeleteActionOK
  | DeleteActionNotFound errorMessage
  | DeleteActionInternalServerError errorMessage

datatype updateActionResponder =
    UpdateActionOK action
  | UpdateActionInternalServerError errorMessage

datatype getActionByNameResponder =
    GetActionByNameOK action
  | GetActionByNameNotFound errorMessage
  | GetActionByNameInternalServerError errorMessage

datatype getAllActionsResponder =
    GetAllActionsOK "action list"
  | GetAllActionsInternalServerError errorMessage

datatype 'j invokeActionResponder =
    InvokeActionOK "'j activation"
  | InvokeActionNotFound errorMessage
  | InvokeActionInternalServerError errorMessage

text \<open>A handler either returns its responder or panics with a message.\<close>

datatype 'r outcome = Return 'r | Panic string

subsection \<open>Errors\<close>

text \<open>
  A Go \<^verbatim>\<open>error\<close> value: its text (\<^verbatim>\<open>err.Error()\<close>) and the status reason that
  \<^verbatim>\<open>errors.IsNotFound\<close> looks at (unknown for an error that is not an API status).
\<close>

datatype statusReason =
    StatusReasonUnknown
  | StatusReasonNotFound
  | StatusReasonAlreadyExists
  | StatusReasonInternalError

record goError =
  err_Reason :: statusReason
  err_Error :: string

definition errors_IsNotFound :: "goError \<Rightarrow> bool" where
  "errors_IsNotFound err \<longleftrightarrow> err_Reason err = StatusReasonNotFound"

text \<open>
  \<^verbatim>\<open>
  func errorMessageFromErr(err error) *models.ErrorMessage {
      msg := err.Error()
      return &models.ErrorMessage{Error: &msg}
  }
  \<close>
\<close>

definition errorMessageFromErr :: "goError \<Rightarrow> errorMessage" where
  "errorMessageFromErr err = (let msg = err_Error err in \<lparr>em_Error = Some msg\<rparr>)"

section \<open>The environment of the handlers\<close>

subsection \<open>Wire messages\<close>

record actionInitValue =
  iv_Main :: string
  iv_Code :: string

record actionInitMessage =
  im_Value :: actionInitValue

text \<open>
  The value of a run message is what \<^verbatim>\<open>getActionParameters\<close> returns: the empty
  \<^verbatim>\<open>map[string]string{}\<close> or the caller's payload.
\<close>

datatype 'j parameters = EmptyStringMap | Payload 'j

record 'j actionRunMessage =
  rm_Value :: "'j parameters"

datatype 'j requestBody = InitBody actionInitMessage | RunBody "'j actionRunMessage"

record request =
  req_Method :: string
  req_URL :: string
  req_Host :: string
  req_Header :: "string \<rightharpoonup> string"
  req_Body :: string

record response =
  res_StatusCode :: int
  res_Body :: string

subsection \<open>Calls and the world\<close>

text \<open>Every call that leaves the process is recorded, in order.\<close>

datatype call =
    ConfigurationsCreate string configuration
  | ConfigurationsGet string string
  | ConfigurationsList string
  | ConfigurationsDelete string string
  | RoutesCreate string route
  | RoutesGet string string
  | RoutesDelete string string
  | HTTPDo request

text \<open>
  The platform's state has any type \<open>'p\<close>. Each operation of the client takes the
  namespace first, as \<^verbatim>\<open>Configurations(namespace)\<close> and \<^verbatim>\<open>Routes(namespace)\<close> do, and
  returns its result with the next state. \<open>http_Do\<close> is \<^verbatim>\<open>http.DefaultClient.Do\<close>
  followed by reading the whole body (the read error is dropped in the source);
  \<open>url_Parse_error\<close> is the only failure of \<^verbatim>\<open>http.NewRequest\<close> for the method
  \<^verbatim>\<open>POST\<close>; \<open>istio\<close> is the flag \<^verbatim>\<open>kwskFlags.Istio\<close>; \<open>caseTable\<close> is the
  Unicode case table of the Go library the program runs with.
\<close>

record ('p, 'j) env =
  configurations_Create :: "string \<Rightarrow> configuration \<Rightarrow> 'p \<Rightarrow> (goError + configuration) \<times> 'p"
  configurations_Get :: "string \<Rightarrow> string \<Rightarrow> 'p \<Rightarrow> (goError + configuration) \<times> 'p"
  configurations_List :: "string \<Rightarrow> 'p \<Rightarrow> (goError + configuration list) \<times> 'p"
  configurations_Delete :: "string \<Rightarrow> string \<Rightarrow> 'p \<Rightarrow> goError option \<times> 'p"
  routes_Create :: "string \<Rightarrow> route \<Rightarrow> 'p \<Rightarrow> (goError + route) \<times> 'p"
  routes_Get :: "string \<Rightarrow> string \<Rightarrow> 'p \<Rightarrow> (goError + route) \<times> 'p"
  routes_Delete :: "string \<Rightarrow> string \<Rightarrow> 'p \<Rightarrow> goError option \<times> 'p"
  http_Do :: "request \<Rightarrow> 'p \<Rightarrow> (goError + response) \<times> 'p"
  url_Parse_error :: "string \<Rightarrow> goError option"
  json_Marshal :: "'j requestBody \<Rightarrow> goError + string"
  json_Unmarshal :: "string \<Rightarrow> goError + 'j"
  istio :: string
  caseTable :: "nat \<Rightarrow> nat"

record 'p world =
  platform :: 'p
  calls :: "call list"

definition perform :: "call \<Rightarrow> ('p \<Rightarrow> 'r \<times> 'p) \<Rightarrow> 'p world \<Rightarrow> 'r \<times> 'p world" where
  "perform c f w = (case f (platform w) of (r, p) \<Rightarrow> (r, \<lparr>platform = p, calls = calls w @ [c]\<rparr>))"

definition Configurations_Create ::
  "('p, 'j) env \<Rightarrow> string \<Rightarrow> configuration \<Rightarrow> 'p world \<Rightarrow> (goError + configuration) \<times> 'p world" where
  "Configurations_Create env namespace config =
     perform (ConfigurationsCreate namespace config) (configurations_Create env namespace config)"

definition Configurations_Get ::
  "('p, 'j) env \<Rightarrow> string \<Rightarrow> string \<Rightarrow> 'p world \<Rightarrow> (goError + configuration) \<times> 'p world" where
  "Configurations_Get env namespace name =
     perform (ConfigurationsGet namespace name) (configurations_Get env namespace name)"

definition Configurations_List ::
  "('p, 'j) env \<Rightarrow> string \<Rightarrow> 'p world \<Rightarrow> (goError + configuration list) \<times> 'p world" where
  "Configurations_List env namespace =
     perform (ConfigurationsList namespace) (configurations_List env namespace)"

definition Configurations_Delete ::
  "('p, 'j) env \<Rightarrow> string \<Rightarrow> string \<Rightarrow> 'p world \<Rightarrow> goError option \<times> 'p world" where
  "Configurations_Delete env namespace name =
     perform (ConfigurationsDelete namespace name) (configurations_Delete env namespace name)"

definition Routes_Create ::
  "('p, 'j) env \<Rightarrow> string \<Rightarrow> route \<Rightarrow> 'p world \<Rightarrow> (goError + route) \<times> 'p world" where
  "Routes_Create env namespace r =
     perform (RoutesCreate namespace r) (routes_Create env namespace r)"

definition Routes_Get ::
  "('p, 'j) env \<Rightarrow> string \<Rightarrow> string \<Rightarrow> 'p world \<Rightarrow> (goError + route) \<times> 'p world" where
  "Routes_Get env namespace name =
     perform (RoutesGet namespace name) (routes_Get env namespace name)"

definition Routes_Delete ::
  "('p, 'j) env \<Rightarrow> string \<Rightarrow> string \<Rightarrow> 'p world \<Rightarrow> goError option \<times> 'p world" where
  "Routes_Delete env namespace name =
     perform (RoutesDelete namespace name) (routes_Delete env namespace name)"

definition HTTP_Do ::
  "('p, 'j) env \<Rightarrow> request \<Rightarrow> 'p world \<Rightarrow> (goError + response) \<times> 'p world" where
  "HTTP_Do env req = perform (HTTPDo req) (http_Do env req)"

section \<open>Action Store\<close>

text \<open>
  \<^verbatim>\<open>
  func deleteActionFunc(knativeClient) = func(params, principal) middleware.Responder {
      configName := sanitizeActionName(params.ActionName)
      namespace := namespaceOrDefault(params.Namespace)
      err := knativeClient.ServingV1alpha1().Configurations(namespace).Delete(configName, ...)
      if err != nil {
          msg := err.Error(); errorMessage := &models.ErrorMessage{Error: &msg}
          if errors.IsNotFound(err) { return NewDeleteActionNotFound().WithPayload(errorMessage) }
          return NewDeleteActionInternalServerError().WithPayload(errorMessage)
      }
      err = knativeClient.ServingV1alpha1().Routes(namespace).Delete(configName, ...)
      if err != nil { ... the same two returns ... }
      return NewDeleteActionOK()
  }
  \<close>
\<close>

definition deleteActionFunc ::
  "('p, 'j) env \<Rightarrow> deleteActionParams \<Rightarrow> 'p world \<Rightarrow> deleteActionResponder \<times> 'p world" where
  "deleteActionFunc env params w =
     (let configName = sanitizeActionName (caseTable env) (dp_ActionName params);
          namespace = namespaceOrDefault (dp_Namespace params)
      in case Configurations_Delete env namespace configName w of
           (Some err, w1) \<Rightarrow>
             (let msg = err_Error err; errorMessage = \<lparr>em_Error = Some msg\<rparr>
              in if errors_IsNotFound err then (DeleteActionNotFound errorMessage, w1)
                 else (DeleteActionInternalServerError errorMessage, w1))
         | (None, w1) \<Rightarrow>
             (case Routes_Delete env namespace configName w1 of
                (Some err, w2) \<Rightarrow>
                  (let msg = err_Error err; errorMessage = \<lparr>em_Error = Some msg\<rparr>
                   in if errors_IsNotFound err then (DeleteActionNotFound errorMessage, w2)
                      else (DeleteActionInternalServerError errorMessage, w2))
              | (None, w2) \<Rightarrow> (DeleteActionOK, w2)))"

text \<open>
  \<^verbatim>\<open>
  func configToAction(config *v1alpha1.Configuration) *models.Action {
      objectMeta := config.ObjectMeta
      name := objectMeta.Annotations["kwsk_action_name"]
      kind := objectMeta.Annotations["kwsk_action_kind"]
      version := objectMeta.Annotations["kwsk_action_version"]
      code := objectMeta.Annotations["kwsk_action_code"]
      return &models.Action{Name: &name, Namespace: &objectMeta.Namespace, Version: &version,
          Exec: &models.ActionExec{
              Image: config.Spec.RevisionTemplate.Spec.Container.Image, Kind: kind, Code: code}}
  }
  \<close>
\<close>

definition configToAction :: "configuration \<Rightarrow> action" where
  "configToAction config =
     (let objectMeta = cfg_ObjectMeta config;
          name = annotation (om_Annotations objectMeta) ''kwsk_action_name'';
          kind = annotation (om_Annotations objectMeta) ''kwsk_action_kind'';
          version = annotation (om_Annotations objectMeta) ''kwsk_action_version'';
          code = annotation (om_Annotations objectMeta) ''kwsk_action_code''
      in \<lparr>a_Name = Some name,
          a_Namespace = Some (om_Namespace objectMeta),
          a_Version = Some version,
          a_Exec = Some \<lparr>ex_Image = c_Image (rs_Container (rts_Spec (cs_RevisionTemplate (cfg_Spec config)))),
                          ex_Kind = kind,
                          ex_Code = code\<rparr>\<rparr>)"

text \<open>
  \<^verbatim>\<open>
  func getActionByName(knativeClient, name string, namespace string) (*models.Action, error) {
      configName := sanitizeActionName(name)
      namespace = namespaceOrDefault(namespace)
      config, err := knativeClient.ServingV1alpha1().Configurations(namespace).Get(configName, ...)
      if err != nil { return nil, err }
      return configToAction(config), nil
  }
  \<close>
\<close>

definition getActionByName ::
  "('p, 'j) env \<Rightarrow> string \<Rightarrow> string \<Rightarrow> 'p world \<Rightarrow> (goError + action) \<times> 'p world" where
  "getActionByName env name namespace w =
     (let configName = sanitizeActionName (caseTable env) name;
          namespace = namespaceOrDefault namespace
      in case Configurations_Get env namespace configName w of
           (Inl err, w1) \<Rightarrow> (Inl err, w1)
         | (Inr config, w1) \<Rightarrow> (Inr (configToAction config), w1))"

definition getActionByNameFunc ::
  "('p, 'j) env \<Rightarrow> getActionByNameParams \<Rightarrow> 'p world \<Rightarrow> getActionByNameResponder \<times> 'p world" where
  "getActionByNameFunc env params w =
     (case getActionByName env (gp_ActionName params) (gp_Namespace params) w of
        (Inl err, w1) \<Rightarrow>
          (let msg = err_Error err; errorMessage = \<lparr>em_Error = Some msg\<rparr>
           in if errors_IsNotFound err then (GetActionByNameNotFound errorMessage, w1)
              else (GetActionByNameInternalServerError errorMessage, w1))
      | (Inr action, w1) \<Rightarrow> (GetActionByNameOK action, w1))"

text \<open>
  The loop of \<^verbatim>\<open>getAllActionsFunc\<close> fills \<^verbatim>\<open>payload[i] = configToAction(&config)\<close>
  for every index of \<^verbatim>\<open>configs.Items\<close>; \<^verbatim>\<open>configToAction\<close> copies what it reads out of
  the loop variable, so the payload is the list of the decoded items.
\<close>

definition getAllActionsFunc ::
  "('p, 'j) env \<Rightarrow> getAllActionsParams \<Rightarrow> 'p world \<Rightarrow> getAllActionsResponder \<times> 'p world" where
  "getAllActionsFunc env params w =
     (let namespace = namespaceOrDefault (lp_Namespace params)
      in case Configurations_List env namespace w of
           (Inl err, w1) \<Rightarrow>
             (let msg = err_Error err; errorMessage = \<lparr>em_Error = Some msg\<rparr>
              in (GetAllActionsInternalServerError errorMessage, w1))
         | (Inr items, w1) \<Rightarrow>
             (let payload = map configToAction items in (GetAllActionsOK payload, w1)))"

text \<open>
  Create/Update. The Configuration that lines 71 to 108 of the source build from the
  request is \<open>updateAction_config\<close>, the Route of lines 122 to 135 is
  \<open>updateAction_route\<close>. The request body is a required parameter, so
  \<^verbatim>\<open>params.Action\<close> is present; its \<^verbatim>\<open>Exec\<close> may be nil.
  \<^verbatim>\<open>
      name := params.ActionName
      configName := sanitizeActionName(name)
      namespace := namespaceOrDefault(params.Namespace)
      var image string
      annotations := make(map[string]string)
      annotations["kwsk_action_name"] = name
      annotations["kwsk_action_version"] = params.Action.Version
      if params.Action.Exec != nil {
          image = params.Action.Exec.Image
          annotations["kwsk_action_kind"] = params.Action.Exec.Kind
          annotations["kwsk_action_code"] = params.Action.Exec.Code
      }
      config := &v1alpha1.Configuration{ObjectMeta: {Name: configName, Namespace: namespace,
          Annotations: annotations}, Spec: {RevisionTemplate: {ObjectMeta: {}, Spec: {}}}}
      if image == "" { image = "openwhisk/action-nodejs-v8" }
      container := corev1.Container{Image: image}
      config.Spec.RevisionTemplate.Spec.Container = container
  \<close>
\<close>

definition updateAction_config :: "(nat \<Rightarrow> nat) \<Rightarrow> updateActionParams \<Rightarrow> configuration" where
  "updateAction_config tbl params =
     (let name = up_ActionName params;
          configName = sanitizeActionName tbl name;
          namespace = namespaceOrDefault (up_Namespace params);
          annotations = [''kwsk_action_name'' \<mapsto> name,
                         ''kwsk_action_version'' \<mapsto> ap_Version (up_Action params)];
          (image, annotations) =
             (case ap_Exec (up_Action params) of
                None \<Rightarrow> ([], annotations)
              | Some exec \<Rightarrow>
                  (ex_Image exec,
                   annotations(''kwsk_action_kind'' \<mapsto> ex_Kind exec,
                               ''kwsk_action_code'' \<mapsto> ex_Code exec)));
          image = (if image = [] then ''openwhisk/action-nodejs-v8'' else image);
          container = \<lparr>c_Image = image\<rparr>
      in \<lparr>cfg_ObjectMeta =
            \<lparr>om_Name = configName, om_Namespace = namespace, om_Annotations = annotations\<rparr>,
          cfg_Spec =
            \<lparr>cs_RevisionTemplate =
               \<lparr>rts_ObjectMeta = emptyObjectMeta,
                rts_Spec = \<lparr>rs_Container = container\<rparr>\<rparr>\<rparr>\<rparr>)"

definition updateAction_route :: "(nat \<Rightarrow> nat) \<Rightarrow> updateActionParams \<Rightarrow> route" where
  "updateAction_route tbl params =
     (let configName = sanitizeActionName tbl (up_ActionName params);
          namespace = namespaceOrDefault (up_Namespace params)
      in \<lparr>rt_ObjectMeta =
            \<lparr>om_Name = configName, om_Namespace = namespace, om_Annotations = Map.empty\<rparr>,
          rt_Spec =
            \<lparr>rsp_Traffic = [\<lparr>tt_ConfigurationName = configName, tt_Percent = 100\<rparr>]\<rparr>,
          rt_Status = \<lparr>rst_Domain = []\<rparr>\<rparr>)"

text \<open>
  \<^verbatim>\<open>
      _, err := knativeClient.ServingV1alpha1().Configurations(namespace).Create(config)
      if err != nil {
          msg := err.Error(); errorMessage := &models.ErrorMessage{Error: &msg}
          return actions.NewUpdateActionInternalServerError().WithPayload(errorMessage)
      }
      route := ...
      _, err = knativeClient.ServingV1alpha1().Routes(namespace).Create(route)
      action, err := getActionByName(knativeClient, name, namespace)
      if err != nil {
          msg := err.Error(); errorMessage := &models.ErrorMessage{Error: &msg}
          return actions.NewUpdateActionInternalServerError().WithPayload(errorMessage)
      }
      return actions.NewUpdateActionOK().WithPayload(action)
  \<close>
\<close>

definition updateActionFunc ::
  "('p, 'j) env \<Rightarrow> updateActionParams \<Rightarrow> 'p world \<Rightarrow> updateActionResponder \<times> 'p world" where
  "updateActionFunc env params w =
     (let name = up_ActionName params;
          namespace = namespaceOrDefault (up_Namespace params);
          config = updateAction_config (caseTable env) params
      in case Configurations_Create env namespace config w of
           (Inl err, w1) \<Rightarrow>
             (let msg = err_Error err; errorMessage = \<lparr>em_Error = Some msg\<rparr>
              in (UpdateActionInternalServerError errorMessage, w1))
         | (Inr created, w1) \<Rightarrow>
             (let route = updateAction_route (caseTable env) params
              in case Routes_Create env namespace route w1 of
                   (routeResult, w2) \<Rightarrow>
                     (case getActionByName env name namespace w2 of
                        (Inl err, w3) \<Rightarrow>
                          (let msg = err_Error err; errorMessage = \<lparr>em_Error = Some msg\<rparr>
                           in (UpdateActionInternalServerError errorMessage, w3))
                      | (Inr action, w3) \<Rightarrow> (UpdateActionOK action, w3))))"

section \<open>Invocation Bridge\<close>

subsection \<open>Formatting\<close>

text \<open>
  What \<^verbatim>\<open>fmt.Sprintf\<close> prints: an \<^verbatim>\<open>int\<close> under \<^verbatim>\<open>%d\<close> in decimal, a byte slice
  under \<^verbatim>\<open>%s\<close> as its bytes and under \<^verbatim>\<open>%v\<close> as the decimal values of its bytes
  between brackets.
\<close>

fun fmt_nat :: "nat \<Rightarrow> string" where
  "fmt_nat n = (if n < 10 then [char_of (48 + n)] else fmt_nat (n div 10) @ [char_of (48 + n mod 10)])"

definition fmt_d :: "int \<Rightarrow> string" where
  "fmt_d i = (if i < 0 then ''-'' @ fmt_nat (nat (- i)) else fmt_nat (nat i))"

fun fmt_bytes_elems :: "string \<Rightarrow> string" where
  "fmt_bytes_elems [] = []"
| "fmt_bytes_elems [b] = fmt_nat (of_char b)"
| "fmt_bytes_elems (b # bs) = fmt_nat (of_char b) @ '' '' @ fmt_bytes_elems bs"

definition fmt_bytes_v :: "string \<Rightarrow> string" where
  "fmt_bytes_v bs = ''['' @ fmt_bytes_elems bs @ '']''"

abbreviation http_StatusOK :: int where
  "http_StatusOK \<equiv> 200"

abbreviation http_StatusForbidden :: int where
  "http_StatusForbidden \<equiv> 403"

subsection \<open>The init/run handshake\<close>

text \<open>
  \<^verbatim>\<open>
  func getActionParameters(params actions.InvokeActionParams) interface{} {
      if params.Payload == nil { return map[string]string{} }
      return params.Payload
  }
  \<close>
\<close>

definition getActionParameters :: "'j invokeActionParams \<Rightarrow> 'j parameters" where
  "getActionParameters params =
     (case ip_Payload params of None \<Rightarrow> EmptyStringMap | Some v \<Rightarrow> Payload v)"

text \<open>
  \<^verbatim>\<open>
  func actionRequest(istioHostAndPort, actionHost, path string, requestBody interface{}) (int, []byte, error) {
      url := fmt.Sprintf("http://%s/%s", istioHostAndPort, path)
      body, err := json.Marshal(requestBody)
      if err != nil { return 500, nil, err }
      req, err := http.NewRequest("POST", url, bytes.NewBuffer(body))
      if err != nil { return 500, nil, err }
      req.Host = actionHost
      req.Header.Set("Content-Type", "application/json")
      res, err := http.DefaultClient.Do(req)
      if err != nil { return 500, nil, err }
      defer res.Body.Close()
      resBody, _ := ioutil.ReadAll(res.Body)
      return res.StatusCode, resBody, nil
  }
  \<close>
\<close>

definition actionRequest ::
  "('p, 'j) env \<Rightarrow> string \<Rightarrow> string \<Rightarrow> string \<Rightarrow> 'j requestBody \<Rightarrow> 'p world
     \<Rightarrow> (int \<times> string \<times> goError option) \<times> 'p world" where
  "actionRequest env istioHostAndPort actionHost path requestBody w =
     (let url = ''http://'' @ istioHostAndPort @ ''/'' @ path
      in case json_Marshal env requestBody of
           Inl err \<Rightarrow> ((500, [], Some err), w)
         | Inr body \<Rightarrow>
             (case url_Parse_error env url of
                Some err \<Rightarrow> ((500, [], Some err), w)
              | None \<Rightarrow>
                  (let req = \<lparr>req_Method = ''POST'', req_URL = url, req_Host = actionHost,
                              req_Header = [''Content-Type'' \<mapsto> ''application/json''],
                              req_Body = body\<rparr>
                   in case HTTP_Do env req w of
                        (Inl err, w1) \<Rightarrow> ((500, [], Some err), w1)
                      | (Inr res, w1) \<Rightarrow> ((res_StatusCode res, res_Body res, None), w1))))"

text \<open>
  \<^verbatim>\<open>
  func initAction(istioHostAndPort, actionHost, actionCode string) middleware.Responder {
      initBody := &ActionInitMessage{Value: ActionInitValue{Main: "main", Code: actionCode}}
      resStatus, resBody, err := actionRequest(istioHostAndPort, actionHost, "init", initBody)
      if err != nil {
          return actions.NewInvokeActionInternalServerError().WithPayload(errorMessageFromErr(err))
      }
      if resStatus == http.StatusForbidden {
          // ignore, since this is expected when we try to initialze an action multiple times
      } else if resStatus != http.StatusOK {
          msg := fmt.Sprintf("Error initializating action. Status: %d, Message: %s\n", resStatus, resBody)
          errorMessage := &models.ErrorMessage{Error: &msg}
          return actions.NewInvokeActionInternalServerError().WithPayload(errorMessage)
      }
      return nil
  }
  \<close>
\<close>

definition initAction ::
  "('p, 'j) env \<Rightarrow> string \<Rightarrow> string \<Rightarrow> string \<Rightarrow> 'p world
     \<Rightarrow> 'j invokeActionResponder option \<times> 'p world" where
  "initAction env istioHostAndPort actionHost actionCode w =
     (let initBody = \<lparr>im_Value = \<lparr>iv_Main = ''main'', iv_Code = actionCode\<rparr>\<rparr>
      in case actionRequest env istioHostAndPort actionHost ''init'' (InitBody initBody) w of
           ((resStatus, resBody, Some err), w1) \<Rightarrow>
             (Some (InvokeActionInternalServerError (errorMessageFromErr err)), w1)
         | ((resStatus, resBody, None), w1) \<Rightarrow>
             (if resStatus = http_StatusForbidden then (None, w1)
              else if resStatus \<noteq> http_StatusOK then
                (let msg = ''Error initializating action. Status: '' @ fmt_d resStatus
                             @ '', Message: '' @ resBody @ [CHR 0x0A];
                     errorMessage = \<lparr>em_Error = Some msg\<rparr>
                 in (Some (InvokeActionInternalServerError errorMessage), w1))
              else (None, w1)))"

text \<open>
  \<^verbatim>\<open>
  func runAction(istioHostAndPort, actionHost, name, namespace string, params interface{}) middleware.Responder {
      runBody := &ActionRunMessage{Value: params}
      resStatus, resBody, err := actionRequest(istioHostAndPort, actionHost, "run", runBody)
      if err != nil {
          return actions.NewInvokeActionInternalServerError().WithPayload(errorMessageFromErr(err))
      }
      if resStatus != http.StatusOK {
          msg := fmt.Sprintf("Error invoking action. Status: %d, Message: %s\n", resStatus, resBody)
          errorMessage := &models.ErrorMessage{Error: &msg}
          return actions.NewInvokeActionInternalServerError().WithPayload(errorMessage)
      }
      var resultJson interface{}
      err = json.Unmarshal(resBody, &resultJson)
      if err != nil {
          msg := fmt.Sprintf("Action invocation result was not valid JSON. Result: %s\n", resStatus, resBody)
          errorMessage := &models.ErrorMessage{Error: &msg}
          return actions.NewInvokeActionInternalServerError().WithPayload(errorMessage)
      }
      activationResult := &models.ActivationResult{Result: resultJson, Success: true}
      activationId := "dummyactivationid"
      logs := []string{}
      activation := &models.Activation{ActivationID: &activationId, Name: &name,
          Namespace: &namespace, Response: activationResult, Logs: logs}
      return actions.NewInvokeActionOK().WithPayload(activation)
  }
  \<close>
  The format of the third message has one verb and two operands: \<^verbatim>\<open>%s\<close> meets the
  \<^verbatim>\<open>int\<close> status, and the body is left over, so \<^verbatim>\<open>Sprintf\<close> prints
  \<^verbatim>\<open>%!s(int=200)\<close> for the first and \<^verbatim>\<open>%!(EXTRA []uint8=[...])\<close> for the second.
\<close>

definition runAction ::
  "('p, 'j) env \<Rightarrow> string \<Rightarrow> string \<Rightarrow> string \<Rightarrow> string \<Rightarrow> 'j parameters \<Rightarrow> 'p world
     \<Rightarrow> 'j invokeActionResponder \<times> 'p world" where
  "runAction env istioHostAndPort actionHost name namespace params w =
     (let runBody = \<lparr>rm_Value = params\<rparr>
      in case actionRequest env istioHostAndPort actionHost ''run'' (RunBody runBody) w of
           ((resStatus, resBody, Some err), w1) \<Rightarrow>
             (InvokeActionInternalServerError (errorMessageFromErr err), w1)
         | ((resStatus, resBody, None), w1) \<Rightarrow>
             (if resStatus \<noteq> http_StatusOK then
                (let msg = ''Error invoking action. Status: '' @ fmt_d resStatus
                             @ '', Message: '' @ resBody @ [CHR 0x0A];
                     errorMessage = \<lparr>em_Error = Some msg\<rparr>
                 in (InvokeActionInternalServerError errorMessage, w1))
              else
                (case json_Unmarshal env resBody of
                   Inl err \<Rightarrow>
                     (let msg = ''Action invocation result was not valid JSON. Result: ''
                                  @ ''%!s(int='' @ fmt_d resStatus @ '')'' @ [CHR 0x0A]
                                  @ ''%!(EXTRA []uint8='' @ fmt_bytes_v resBody @ '')'';
                          errorMessage = \<lparr>em_Error = Some msg\<rparr>
                      in (InvokeActionInternalServerError errorMessage, w1))
                 | Inr resultJson \<Rightarrow>
                     (let activationResult = \<lparr>ar_Result = resultJson, ar_Success = True\<rparr>;
                          activationId = ''dummyactivationid'';
                          logs = [];
                          activation = \<lparr>act_ActivationID = Some activationId,
                                        act_Name = Some name,
                                        act_Namespace = Some namespace,
                                        act_Response = Some activationResult,
                                        act_Logs = logs\<rparr>
                      in (InvokeActionOK activation, w1)))))"

text \<open>
  \<^verbatim>\<open>
  func invokeActionFunc(knativeClient) = func(params, principal) middleware.Responder {
      namespace := namespaceOrDefault(params.Namespace)
      route, err := knativeClient.ServingV1alpha1().Routes(namespace).Get(params.ActionName, ...)
      if err != nil {
          errorMessage := errorMessageFromErr(err)
          if errors.IsNotFound(err) { return NewInvokeActionNotFound().WithPayload(errorMessage) }
          return NewInvokeActionInternalServerError().WithPayload(errorMessage)
      }
      config, err := knativeClient.ServingV1alpha1().Configurations(namespace).Get(params.ActionName, ...)
      if err != nil { ... the same two returns ... }
      annotations := config.Annotations
      actionHost := route.Status.Domain
      istioHostAndPort := kwskFlags.Istio
      if istioHostAndPort == "" {
          panic("Istio host and port must be provided via --istio flag to invoke actions")
      }
      errResponder := initAction(istioHostAndPort, actionHost, annotations["kwsk_action_code"])
      if errResponder != nil { return errResponder }
      return runAction(istioHostAndPort, actionHost, config.Name, namespace, getActionParameters(params))
  }
  \<close>
\<close>

definition invokeActionFunc ::
  "('p, 'j) env \<Rightarrow> 'j invokeActionParams \<Rightarrow> 'p world
     \<Rightarrow> 'j invokeActionResponder outcome \<times> 'p world" where
  "invokeActionFunc env params w =
     (let namespace = namespaceOrDefault (ip_Namespace params)
      in case Routes_Get env namespace (ip_ActionName params) w of
           (Inl err, w1) \<Rightarrow>
             (let errorMessage = errorMessageFromErr err
              in if errors_IsNotFound err then (Return (InvokeActionNotFound errorMessage), w1)
                 else (Return (InvokeActionInternalServerError errorMessage), w1))
         | (Inr route, w1) \<Rightarrow>
             (case Configurations_Get env namespace (ip_ActionName params) w1 of
                (Inl err, w2) \<Rightarrow>
                  (let errorMessage = errorMessageFromErr err
                   in if errors_IsNotFound err then (Return (InvokeActionNotFound errorMessage), w2)
                      else (Return (InvokeActionInternalServerError errorMessage), w2))
              | (Inr config, w2) \<Rightarrow>
                  (let annotations = om_Annotations (cfg_ObjectMeta config);
                       actionHost = rst_Domain (rt_Status route);
                       istioHostAndPort = istio env
                   in if istioHostAndPort = [] then
                        (Panic ''Istio host and port must be provided via --istio flag to invoke actions'', w2)
                      else
                        (case initAction env istioHostAndPort actionHost
                                (annotation annotations ''kwsk_action_code'') w2 of
                           (Some errResponder, w3) \<Rightarrow> (Return errResponder, w3)
                         | (None, w3) \<Rightarrow>
                             (case runAction env istioHostAndPort actionHost
                                     (om_Name (cfg_ObjectMeta config)) namespace
                                     (getActionParameters params) w3 of
                                (responder, w4) \<Rightarrow> (Return responder, w4))))))"

section \<open>Auxiliary definitions\<close>

text \<open>
  Notions for stating what the normaliser does: the upper-case ASCII letters, what
  \<open>sanitizeActionName\<close> does to one ASCII byte, the rune a rune is written back as, the
  replacement of the space by the hyphen on byte values, and the two properties of the
  case table that the normal form rests on (the lower-case rune of a rune is a rune, and
  lower-casing it again changes nothing).
\<close>

definition isUpperASCII :: "char \<Rightarrow> bool" where
  "isUpperASCII c \<longleftrightarrow> (65::nat) \<le> of_char c \<and> of_char c \<le> (90::nat)"

definition isASCII :: "char \<Rightarrow> bool" where
  "isASCII c \<longleftrightarrow> (of_char c :: nat) < 0x80"

definition toLowerByte :: "char \<Rightarrow> char" where
  "toLowerByte c = (if isUpperASCII c then char_of ((of_char c :: nat) + 32) else c)"

definition sanitizeByte :: "char \<Rightarrow> char" where
  "sanitizeByte c = (if c = CHR '' '' then CHR ''-'' else toLowerByte c)"

definition normRune :: "nat \<Rightarrow> nat" where
  "normRune r = (if utf8_ValidRune r then r else utf8_RuneError)"

definition hyphenate :: "nat \<Rightarrow> nat" where
  "hyphenate b = (if b = 0x20 then 0x2D else b)"

definition sanitizeBytes :: "(nat \<Rightarrow> nat) \<Rightarrow> string \<Rightarrow> nat list" where
  "sanitizeBytes tbl s = map hyphenate (strings_Map (unicode_ToLower tbl) (map of_char s))"

definition caseTable_ok :: "(nat \<Rightarrow> nat) \<Rightarrow> bool" where
  "caseTable_ok tbl \<longleftrightarrow>
     (\<forall>r. 0x80 \<le> r \<and> utf8_ValidRune r \<longrightarrow>
        utf8_ValidRune (tbl r) \<and> unicode_ToLower tbl (tbl r) = tbl r)"

text \<open>
  A small case table: the upper-case letters of Latin-1 (U+00C0 to U+00DE without the
  multiplication sign) are 32 below their lower-case letters.
\<close>

definition latin1Lower :: "nat \<Rightarrow> nat" where
  "latin1Lower r = (if 0xC0 \<le> r \<and> r \<le> 0xDE \<and> r \<noteq> 0xD7 then r + 0x20 else r)"

text \<open>
  The request that \<open>actionRequest\<close> sends, and what it means that the endpoint
  \<open>path\<close> answers it: the body is marshalled, the URL parses, and the transport
  returns a response with the given status and body, taking the platform from \<open>p\<close>
  to \<open>p'\<close>.
\<close>

definition postRequest :: "string \<Rightarrow> string \<Rightarrow> string \<Rightarrow> string \<Rightarrow> request" where
  "postRequest istioHostAndPort actionHost path body =
     \<lparr>req_Method = ''POST'', req_URL = ''http://'' @ istioHostAndPort @ ''/'' @ path,
      req_Host = actionHost, req_Header = [''Content-Type'' \<mapsto> ''application/json''],
      req_Body = body\<rparr>"

definition responds ::
  "('p, 'j) env \<Rightarrow> string \<Rightarrow> string \<Rightarrow> 'j requestBody \<Rightarrow> 'p \<Rightarrow> int \<Rightarrow> string \<Rightarrow> 'p \<Rightarrow> bool" where
  "responds env actionHost path requestBody p status resBody p' =
     (case json_Marshal env requestBody of
        Inl err \<Rightarrow> False
      | Inr body \<Rightarrow>
          url_Parse_error env (''http://'' @ istio env @ ''/'' @ path) = None
          \<and> http_Do env (postRequest (istio env) actionHost path body) p
              = (Inr \<lparr>res_StatusCode = status, res_Body = resBody\<rparr>, p'))"

definition initMessage :: "configuration \<Rightarrow> 'j requestBody" where
  "initMessage config =
     InitBody \<lparr>im_Value = \<lparr>iv_Main = ''main'',
       iv_Code = annotation (om_Annotations (cfg_ObjectMeta config)) ''kwsk_action_code''\<rparr>\<rparr>"

definition runMessage :: "'j invokeActionParams \<Rightarrow> 'j requestBody" where
  "runMessage params = RunBody \<lparr>rm_Value = getActionParameters params\<rparr>"

fun isHTTPDo :: "call \<Rightarrow> bool" where
  "isHTTPDo (HTTPDo req) = True"
| "isHTTPDo c = False"

text \<open>The calls a handler added to the record of a world.\<close>

definition issued :: "'p world \<Rightarrow> 'r \<times> 'p world \<Rightarrow> call list" where
  "issued w r = drop (length (calls w)) (calls (snd r))"

subsection \<open>An in-memory platform\<close>

text \<open>
  A concrete platform to run the handlers on: resources are kept under (namespace, name),
  \<open>mp_routes_failing\<close> makes every Route operation fail with an internal error, and
  the action host answers the requests it gets with \<open>mp_replies\<close>, in order.
\<close>

record memPlatform =
  mp_configurations :: "((string \<times> string) \<times> configuration) list"
  mp_routes :: "((string \<times> string) \<times> route) list"
  mp_routes_failing :: bool
  mp_replies :: "response list"

definition notFoundError :: "string \<Rightarrow> goError" where
  "notFoundError name = \<lparr>err_Reason = StatusReasonNotFound, err_Error = name @ '' not found''\<rparr>"

definition alreadyExistsError :: "string \<Rightarrow> goError" where
  "alreadyExistsError name =
     \<lparr>err_Reason = StatusReasonAlreadyExists, err_Error = name @ '' already exists''\<rparr>"

definition internalError :: goError where
  "internalError = \<lparr>err_Reason = StatusReasonInternalError, err_Error = ''internal error''\<rparr>"

definition plainError :: "string \<Rightarrow> goError" where
  "plainError msg = \<lparr>err_Reason = StatusReasonUnknown, err_Error = msg\<rparr>"

fun remove_key :: "'k \<Rightarrow> ('k \<times> 'v) list \<Rightarrow> ('k \<times> 'v) list" where
  "remove_key k [] = []"
| "remove_key k ((k', v) # kvs) = (if k' = k then remove_key k kvs else (k', v) # remove_key k kvs)"

fun in_namespace :: "string \<Rightarrow> ((string \<times> string) \<times> 'v) list \<Rightarrow> 'v list" where
  "in_namespace ns [] = []"
| "in_namespace ns (((ns', n), v) # kvs) =
     (if ns' = ns then v # in_namespace ns kvs else in_namespace ns kvs)"

definition mem_configurations_Create ::
  "string \<Rightarrow> configuration \<Rightarrow> memPlatform \<Rightarrow> (goError + configuration) \<times> memPlatform" where
  "mem_configurations_Create ns config p =
     (let name = om_Name (cfg_ObjectMeta config)
      in case map_of (mp_configurations p) (ns, name) of
           Some c \<Rightarrow> (Inl (alreadyExistsError name), p)
         | None \<Rightarrow> (Inr config, p\<lparr>mp_configurations := ((ns, name), config) # mp_configurations p\<rparr>))"

definition mem_configurations_Get ::
  "string \<Rightarrow> string \<Rightarrow> memPlatform \<Rightarrow> (goError + configuration) \<times> memPlatform" where
  "mem_configurations_Get ns name p =
     (case map_of (mp_configurations p) (ns, name) of
        None \<Rightarrow> (Inl (notFoundError name), p)
      | Some c \<Rightarrow> (Inr c, p))"

definition mem_configurations_List ::
  "string \<Rightarrow> memPlatform \<Rightarrow> (goError + configuration list) \<times> memPlatform" where
  "mem_configurations_List ns p = (Inr (in_namespace ns (mp_configurations p)), p)"

definition mem_configurations_Delete ::
  "string \<Rightarrow> string \<Rightarrow> memPlatform \<Rightarrow> goError option \<times> memPlatform" where
  "mem_configurations_Delete ns name p =
     (case map_of (mp_configurations p) (ns, name) of
        None \<Rightarrow> (Some (notFoundError name), p)
      | Some c \<Rightarrow> (None, p\<lparr>mp_configurations := remove_key (ns, name) (mp_configurations p)\<rparr>))"

definition mem_routes_Create ::
  "string \<Rightarrow> route \<Rightarrow> memPlatform \<Rightarrow> (goError + route) \<times> memPlatform" where
  "mem_routes_Create ns r p =
     (let name = om_Name (rt_ObjectMeta r)
      in if mp_routes_failing p then (Inl internalError, p)
         else case map_of (mp_routes p) (ns, name) of
                Some r' \<Rightarrow> (Inl (alreadyExistsError name), p)
              | None \<Rightarrow>
                  (let stored = r\<lparr>rt_Status := \<lparr>rst_Domain = name @ ''.'' @ ns @ ''.example.com''\<rparr>\<rparr>
                   in (Inr stored, p\<lparr>mp_routes := ((ns, name), stored) # mp_routes p\<rparr>)))"

definition mem_routes_Get ::
  "string \<Rightarrow> string \<Rightarrow> memPlatform \<Rightarrow> (goError + route) \<times> memPlatform" where
  "mem_routes_Get ns name p =
     (if mp_routes_failing p then (Inl internalError, p)
      else case map_of (mp_routes p) (ns, name) of
             None \<Rightarrow> (Inl (notFoundError name), p)
           | Some r \<Rightarrow> (Inr r, p))"

definition mem_routes_Delete ::
  "string \<Rightarrow> string \<Rightarrow> memPlatform \<Rightarrow> goError option \<times> memPlatform" where
  "mem_routes_Delete ns name p =
     (if mp_routes_failing p then (Some internalError, p)
      else case map_of (mp_routes p) (ns, name) of
             None \<Rightarrow> (Some (notFoundError name), p)
           | Some r \<Rightarrow> (None, p\<lparr>mp_routes := remove_key (ns, name) (mp_routes p)\<rparr>))"

definition mem_http_Do :: "request \<Rightarrow> memPlatform \<Rightarrow> (goError + response) \<times> memPlatform" where
  "mem_http_Do req p =
     (case mp_replies p of
        [] \<Rightarrow> (Inl (plainError ''connection refused''), p)
      | res # rest \<Rightarrow> (Inr res, p\<lparr>mp_replies := rest\<rparr>))"

text \<open>
  The JSON codec of the in-memory environment knows one document, \<^verbatim>\<open>{}\<close>: a message is
  marshalled to it, and only it parses.
\<close>

definition mem_json_Unmarshal :: "string \<Rightarrow> goError + string" where
  "mem_json_Unmarshal body =
     (if body = ''{}'' then Inr body else Inl (plainError ''invalid character''))"

definition memEnv :: "string \<Rightarrow> (memPlatform, string) env" where
  "memEnv gateway =
     \<lparr>configurations_Create = mem_configurations_Create,
      configurations_Get = mem_configurations_Get,
      configurations_List = mem_configurations_List,
      configurations_Delete = mem_configurations_Delete,
      routes_Create = mem_routes_Create,
      routes_Get = mem_routes_Get,
      routes_Delete = mem_routes_Delete,
      http_Do = mem_http_Do,
      url_Parse_error = (\<lambda>url. None),
      json_Marshal = (\<lambda>requestBody. Inr ''{}''),
      json_Unmarshal = mem_json_Unmarshal,
      istio = gateway,
      caseTable = latin1Lower\<rparr>"

definition start :: "'p \<Rightarrow> 'p world" where
  "start p = \<lparr>platform = p, calls = []\<rparr>"

subsection \<open>Concrete inputs\<close>

text \<open>
  The action \<^verbatim>\<open>My Action\<close> with an explicit image, the Configuration and the Route it
  is stored as, and a platform on which it is deployed.
\<close>

definition demoExec :: actionExec where
  "demoExec = \<lparr>ex_Image = ''example/runtime'', ex_Kind = ''nodejs:8'', ex_Code = ''function main() {}''\<rparr>"

definition demoUpdate :: updateActionParams where
  "demoUpdate = \<lparr>up_ActionName = ''My Action'', up_Namespace = ''_'',
                  up_Action = \<lparr>ap_Version = ''0.0.1'', ap_Exec = Some demoExec\<rparr>\<rparr>"

definition demoConfig :: configuration where
  "demoConfig =
     \<lparr>cfg_ObjectMeta =
        \<lparr>om_Name = ''my-action'', om_Namespace = ''default'',
         om_Annotations = [''kwsk_action_name'' \<mapsto> ''My Action'',
                           ''kwsk_action_version'' \<mapsto> ''0.0.1'',
                           ''kwsk_action_kind'' \<mapsto> ''nodejs:8'',
                           ''kwsk_action_code'' \<mapsto> ''function main() {}'']\<rparr>,
      cfg_Spec =
        \<lparr>cs_RevisionTemplate =
           \<lparr>rts_ObjectMeta = emptyObjectMeta,
            rts_Spec = \<lparr>rs_Container = \<lparr>c_Image = ''example/runtime''\<rparr>\<rparr>\<rparr>\<rparr>\<rparr>"

definition demoRoute :: route where
  "demoRoute =
     \<lparr>rt_ObjectMeta = \<lparr>om_Name = ''my-action'', om_Namespace = ''default'', om_Annotations = Map.empty\<rparr>,
      rt_Spec = \<lparr>rsp_Traffic = [\<lparr>tt_ConfigurationName = ''my-action'', tt_Percent = 100\<rparr>]\<rparr>,
      rt_Status = \<lparr>rst_Domain = ''my-action.default.example.com''\<rparr>\<rparr>"

definition deployed :: "bool \<Rightarrow> response list \<Rightarrow> memPlatform" where
  "deployed failing replies =
     \<lparr>mp_configurations = [((''default'', ''my-action''), demoConfig)],
      mp_routes = [((''default'', ''my-action''), demoRoute)],
      mp_routes_failing = failing,
      mp_replies = replies\<rparr>"

definition demoInvoke :: "string \<Rightarrow> string invokeActionParams" where
  "demoInvoke name = \<lparr>ip_ActionName = name, ip_Namespace = ''_'', ip_Payload = None\<rparr>"

definition reply :: "int \<Rightarrow> string \<Rightarrow> response" where
  "reply status body = \<lparr>res_StatusCode = status, res_Body = body\<rparr>"

definition firstError :: "goError option \<Rightarrow> goError option \<Rightarrow> goError option" where
  "firstError rc rr = (case rc of Some err \<Rightarrow> Some err | None \<Rightarrow> rr)"

text \<open>
  A name with an upper-case letter, a space, a two-byte upper-case letter (U+00C9, bytes
  C3 89) and a byte that is not UTF-8 (FF), and its normal form: the letters lower-cased
  (U+00E9 is C3 A9), the space a hyphen, the stray byte the three bytes of U+FFFD.
\<close>

definition mixedName :: string where
  "mixedName = map char_of [0x41, 0x20, 0x62, 0xC3, 0x89, 0xFF :: nat]"

definition mixedNameNormal :: string where
  "mixedNameNormal = map char_of [0x61, 0x2D, 0x62, 0xC3, 0xA9, 0xEF, 0xBF, 0xBD :: nat]"

definition bareConfig :: configuration where
  "bareConfig =
     \<lparr>cfg_ObjectMeta = \<lparr>om_Name = ''bare'', om_Namespace = ''default'', om_Annotations = Map.empty\<rparr>,
      cfg_Spec =
        \<lparr>cs_RevisionTemplate =
           \<lparr>rts_ObjectMeta = emptyObjectMeta,
            rts_Spec = \<lparr>rs_Container = \<lparr>c_Image = ''example/runtime''\<rparr>\<rparr>\<rparr>\<rparr>\<rparr>"

definition demoDelete :: deleteActionParams where
  "demoDelete = \<lparr>dp_ActionName = ''My Action'', dp_Namespace = ''_''\<rparr>"

section \<open>Properties of the Name Normalizer\<close>

subsection \<open>Arithmetic of the byte layout\<close>

lemma div_powers_of_64: "(r::nat) div 4096 = (r div 64) div 64" "r div 262144 = ((r div 64) div 64) div 64"
  by (simp_all add: div_mult2_eq)

lemma two_byte_lead: "0x80 \<le> (r::nat) \<Longrightarrow> r \<le> 0x7FF \<Longrightarrow> 2 \<le> r div 64 \<and> r div 64 \<le> 31"
  by linarith

lemma three_byte_lead: "0x800 \<le> (r::nat) \<Longrightarrow> r \<le> 0xFFFF \<Longrightarrow> r div 4096 \<le> 15"
  by linarith

lemma three_byte_value: "(r::nat) div 4096 * 4096 + (r div 64) mod 64 * 64 + r mod 64 = r"
proof -
  define q c a b where "q = r div 64" and "c = r mod 64" and "a = q div 64" and "b = q mod 64"
  have 1: "r = q * 64 + c" by (simp add: q_def c_def)
  have 2: "q = a * 64 + b" by (simp add: a_def b_def)
  have "a * 4096 + b * 64 + c = r" using 1 2 by simp
  then show ?thesis by (simp add: div_powers_of_64 q_def c_def a_def b_def)
qed

lemma four_byte_value: "(r::nat) div 262144 * 262144 + (r div 4096) mod 64 * 4096 + (r div 64) mod 64 * 64
    + r mod 64 = r"
proof -
  define q c a b where "q = r div 64" and "c = r mod 64" and "a = q div 64" and "b = q mod 64"
  define d e where "d = a div 64" and "e = a mod 64"
  have 1: "r = q * 64 + c" by (simp add: q_def c_def)
  have 2: "q = a * 64 + b" by (simp add: a_def b_def)
  have 3: "a = d * 64 + e" by (simp add: d_def e_def)
  have "d * 262144 + e * 4096 + b * 64 + c = r" using 1 2 3 by simp
  then show ?thesis by (simp add: div_powers_of_64 q_def c_def a_def b_def d_def e_def)
qed

lemma three_byte_not_overlong: "0x800 \<le> (r::nat) \<Longrightarrow> r div 4096 = 0 \<Longrightarrow> 32 \<le> (r div 64) mod 64"
proof -
  assume a: "0x800 \<le> r" and b: "r div 4096 = 0"
  from b have "r < 4096" by (simp add: div_eq_0_iff)
  then have "r div 64 < 64" by linarith
  then have "(r div 64) mod 64 = r div 64" by simp
  moreover from a have "32 \<le> r div 64" by linarith
  ultimately show ?thesis by simp
qed

lemma three_byte_below_surrogates: "(r::nat) < 0xD800 \<Longrightarrow> r div 4096 = 13 \<Longrightarrow> (r div 64) mod 64 \<le> 31"
proof -
  assume a: "r < 0xD800" and b: "r div 4096 = 13"
  have "r div 64 = (r div 64) div 64 * 64 + (r div 64) mod 64" by simp
  with b have "r div 64 = 13 * 64 + (r div 64) mod 64" by (simp add: div_powers_of_64)
  moreover from a have "r div 64 < 864" by linarith
  ultimately show ?thesis by linarith
qed

lemma three_byte_above_surrogates: "0xDFFF < (r::nat) \<Longrightarrow> r div 4096 \<noteq> 13"
  by linarith

lemma four_byte_not_overlong: "0x10000 \<le> (r::nat) \<Longrightarrow> r div 262144 = 0 \<Longrightarrow> 16 \<le> (r div 4096) mod 64"
proof -
  assume a: "0x10000 \<le> r" and b: "r div 262144 = 0"
  from b have "r < 262144" by (simp add: div_eq_0_iff)
  then have "r div 4096 < 64" by linarith
  then have "(r div 4096) mod 64 = r div 4096" by simp
  moreover from a have "16 \<le> r div 4096" by linarith
  ultimately show ?thesis by simp
qed

lemma four_byte_in_range: "(r::nat) \<le> 0x10FFFF \<Longrightarrow> r div 262144 = 4 \<Longrightarrow> (r div 4096) mod 64 \<le> 15"
proof -
  assume a: "r \<le> 0x10FFFF" and b: "r div 262144 = 4"
  have "r div 262144 = (r div 4096) div 64" by (simp add: div_mult2_eq)
  moreover have "r div 4096 = (r div 4096) div 64 * 64 + (r div 4096) mod 64" by simp
  ultimately have "r div 4096 = 4 * 64 + (r div 4096) mod 64" using b by simp
  moreover from a have "r div 4096 < 272" by linarith
  ultimately show ?thesis by linarith
qed

lemma four_byte_lead: "0x10000 \<le> (r::nat) \<Longrightarrow> r \<le> 0x10FFFF \<Longrightarrow> r div 262144 \<le> 4"
  by linarith

subsection \<open>Encoding and decoding one rune\<close>

lemma encode_cases:
  obtains (one) "r \<le> 0x7F" "utf8_EncodeRune r = [r]"
  | (two) "0x80 \<le> r" "r \<le> 0x7FF" "utf8_EncodeRune r = [0xC0 + r div 64, 0x80 + r mod 64]"
  | (bad) "\<not> utf8_ValidRune r" "utf8_EncodeRune r = [0xEF, 0xBF, 0xBD]"
  | (three) "0x800 \<le> r" "r \<le> 0xFFFF" "utf8_ValidRune r"
      "utf8_EncodeRune r = [0xE0 + r div 4096, 0x80 + (r div 64) mod 64, 0x80 + r mod 64]"
  | (four) "0x10000 \<le> r" "r \<le> 0x10FFFF"
      "utf8_EncodeRune r = [0xF0 + r div 262144, 0x80 + (r div 4096) mod 64,
         0x80 + (r div 64) mod 64, 0x80 + r mod 64]"
  unfolding utf8_EncodeRune_def utf8_ValidRune_def
  by (cases "r \<le> 0x7F"; cases "r \<le> 0x7FF"; cases "r \<le> 0xFFFF"; cases "r \<le> 0x10FFFF";
      cases "0xD800 \<le> r \<and> r \<le> 0xDFFF") (simp_all, linarith+)

lemma mod64_bound: "0x80 + (x::nat) mod 64 \<le> 0xBF" "0x80 \<le> 0x80 + (x::nat) mod 64"
  by simp_all

lemma decode_encode:
  "utf8_DecodeRune (utf8_EncodeRune r @ rest) = (normRune r, length (utf8_EncodeRune r))"
proof (cases r rule: encode_cases)
  case one
  then show ?thesis by (simp add: normRune_def utf8_ValidRune_def)
next
  case two
  from two_byte_lead [OF two(1,2)] have b0: "0xC2 \<le> 0xC0 + r div 64" "0xC0 + r div 64 \<le> 0xDF"
      "\<not> 0xC0 + r div 64 < 0x80"
    by simp_all
  have ne: "0xC0 + r div 64 \<noteq> 0xE0" "0xC0 + r div 64 \<noteq> 0xF0" "0xC0 + r div 64 \<noteq> 0xED"
      "0xC0 + r div 64 \<noteq> 0xF4"
    using b0 by simp_all
  have v: "utf8_ValidRune r"
    using two(2) by (simp add: utf8_ValidRune_def)
  have v2: "rune2 (0xC0 + r div 64) (0x80 + r mod 64) = r"
    by (simp add: rune2_def)
  show ?thesis
    unfolding two(3) using b0 ne v v2 mod64_bound [of r]
    by (simp add: acceptLo_def acceptHi_def normRune_def)
next
  case bad
  then show ?thesis
    by (simp add: normRune_def acceptLo_def acceptHi_def continuationByte_def utf8_RuneError_def
          rune3_def)
next
  case three
  define a where "a = r div 4096"
  define s1 where "s1 = 0x80 + (r div 64) mod 64"
  define s2 where "s2 = 0x80 + r mod 64"
  have a15: "a \<le> 15"
    unfolding a_def using three_byte_lead [OF three(1,2)] .
  have b1: "acceptLo (0xE0 + a) \<le> s1"
  proof (cases "a = 0")
    case True
    with three_byte_not_overlong [OF three(1)] show ?thesis by (simp add: acceptLo_def a_def s1_def)
  next
    case False
    with a15 show ?thesis by (simp add: acceptLo_def s1_def)
  qed
  have b1': "s1 \<le> acceptHi (0xE0 + a)"
  proof (cases "a = 13")
    case True
    with three(3) three_byte_below_surrogates [of r] three_byte_above_surrogates [of r] have "(r div 64) mod 64 \<le> 31"
      unfolding utf8_ValidRune_def a_def by blast
    with True show ?thesis by (simp add: acceptHi_def s1_def)
  next
    case False
    with a15 show ?thesis using mod64_bound [of "r div 64"] by (simp add: acceptHi_def s1_def)
  qed
  have b2: "continuationByte s2"
    unfolding continuationByte_def s2_def by simp
  have v: "rune3 (0xE0 + a) s1 s2 = r"
    unfolding rune3_def a_def s1_def s2_def using three_byte_value [of r] by simp
  have e: "utf8_EncodeRune r = [0xE0 + a, s1, s2]"
    by (simp add: three(4) a_def s1_def s2_def)
  show ?thesis
    unfolding e using a15 b1 b1' b2 v three(3) by (simp add: normRune_def)
next
  case four
  define a where "a = r div 262144"
  define s1 where "s1 = 0x80 + (r div 4096) mod 64"
  define s2 where "s2 = 0x80 + (r div 64) mod 64"
  define s3 where "s3 = 0x80 + r mod 64"
  have a4: "a \<le> 4"
    unfolding a_def using four_byte_lead [OF four(1,2)] .
  have b1: "acceptLo (0xF0 + a) \<le> s1"
  proof (cases "a = 0")
    case True
    with four_byte_not_overlong [OF four(1)] show ?thesis by (simp add: acceptLo_def a_def s1_def)
  next
    case False
    with a4 show ?thesis by (simp add: acceptLo_def s1_def)
  qed
  have b1': "s1 \<le> acceptHi (0xF0 + a)"
  proof (cases "a = 4")
    case True
    with four_byte_in_range [OF four(2)] show ?thesis by (simp add: acceptHi_def a_def s1_def)
  next
    case False
    with a4 show ?thesis using mod64_bound [of "r div 4096"] by (simp add: acceptHi_def s1_def)
  qed
  have b2: "continuationByte s2" "continuationByte s3"
    unfolding continuationByte_def s2_def s3_def by simp_all
  have v: "rune4 (0xF0 + a) s1 s2 s3 = r"
    unfolding rune4_def a_def s1_def s2_def s3_def using four_byte_value [of r] by simp
  have e: "utf8_EncodeRune r = [0xF0 + a, s1, s2, s3]"
    by (simp add: four(3) a_def s1_def s2_def s3_def)
  have vr: "utf8_ValidRune r"
    using four(1,2) by (simp add: utf8_ValidRune_def)
  show ?thesis
    unfolding e using a4 b1 b1' b2 v vr by (simp add: normRune_def)
qed

lemma encode_nonempty: "utf8_EncodeRune r \<noteq> []"
  by (cases r rule: encode_cases) simp_all

lemma decodeRunes_encode:
  "decodeRunes (utf8_EncodeRune r @ rest) = normRune r # decodeRunes rest"
proof -
  obtain b bs where e: "utf8_EncodeRune r @ rest = b # bs"
    using encode_nonempty [of r] by (cases "utf8_EncodeRune r") auto
  have "decodeRunes (b # bs) =
      (case utf8_DecodeRune (b # bs) of (c, width) \<Rightarrow> c # decodeRunes (drop width (b # bs)))"
    by simp
  also have "\<dots> = normRune r # decodeRunes (drop (length (utf8_EncodeRune r)) (utf8_EncodeRune r @ rest))"
    unfolding e [symmetric] decode_encode by simp
  finally show ?thesis unfolding e [symmetric] by simp
qed

lemma decodeRunes_concat_encode:
  "decodeRunes (concat (map utf8_EncodeRune rs)) = map normRune rs"
  by (induction rs) (simp_all add: decodeRunes_encode)

lemma rune2_bounds:
  assumes "0xC2 \<le> s0" "s0 \<le> 0xDF" "0x80 \<le> s1" "s1 \<le> 0xBF"
  shows "0x80 \<le> rune2 s0 s1 \<and> rune2 s0 s1 \<le> 0x7FF"
proof -
  from assms(1) have "0xC0 \<le> s0" by simp
  then obtain x where x: "s0 = 0xC0 + x" using le_Suc_ex by blast
  obtain y where y: "s1 = 0x80 + y" using assms(3) le_Suc_ex by blast
  from x y assms have "2 \<le> x" "x \<le> 31" "y \<le> 63" by simp_all
  then show ?thesis
    unfolding rune2_def x y by simp
qed

lemma rune3_bounds:
  assumes "0xE0 \<le> s0" "s0 \<le> 0xEF" "acceptLo s0 \<le> s1" "s1 \<le> acceptHi s0"
    "continuationByte s2"
  shows "0x800 \<le> rune3 s0 s1 s2 \<and> rune3 s0 s1 s2 \<le> 0xFFFF \<and> utf8_ValidRune (rune3 s0 s1 s2)"
proof -
  obtain x where x: "s0 = 0xE0 + x" using assms(1) le_Suc_ex by blast
  have "0x80 \<le> s1" using assms(3) by (simp add: acceptLo_def split: if_splits)
  then obtain y where y: "s1 = 0x80 + y" using le_Suc_ex by blast
  obtain z where z: "s2 = 0x80 + z" using assms(5) le_Suc_ex unfolding continuationByte_def by blast
  have bx: "x \<le> 15" using assms(2) x by simp
  have bz: "z \<le> 63" using assms(5) z by (simp add: continuationByte_def)
  have by1: "y \<le> 63" using assms(4) y by (simp add: acceptHi_def split: if_splits)
  have lo: "x = 0 \<longrightarrow> 32 \<le> y" using assms(3) x y by (auto simp: acceptLo_def)
  have hi: "x = 13 \<longrightarrow> y \<le> 31" using assms(4) x y by (auto simp: acceptHi_def)
  have e: "rune3 s0 s1 s2 = x * 4096 + y * 64 + z"
    unfolding rune3_def x y z by simp
  have 1: "0x800 \<le> x * 4096 + y * 64 + z" using lo by (cases "x = 0") simp_all
  have 2: "x * 4096 + y * 64 + z \<le> 0xFFFF" using bx by1 bz by simp
  have 3: "x * 4096 + y * 64 + z < 0xD800 \<or> 0xDFFF < x * 4096 + y * 64 + z"
  proof (cases "x \<le> 12")
    case True
    then show ?thesis using by1 bz by simp
  next
    case False
    show ?thesis
    proof (cases "x = 13")
      case True
      with hi show ?thesis using bz by simp
    next
      case False
      with \<open>\<not> x \<le> 12\<close> have "14 \<le> x" by simp
      then show ?thesis by simp
    qed
  qed
  from 1 2 3 show ?thesis unfolding e utf8_ValidRune_def by simp
qed

lemma rune4_bounds:
  assumes "0xF0 \<le> s0" "s0 \<le> 0xF4" "acceptLo s0 \<le> s1" "s1 \<le> acceptHi s0"
    "continuationByte s2" "continuationByte s3"
  shows "0x10000 \<le> rune4 s0 s1 s2 s3 \<and> rune4 s0 s1 s2 s3 \<le> 0x10FFFF"
proof -
  obtain x where x: "s0 = 0xF0 + x" using assms(1) le_Suc_ex by blast
  have "0x80 \<le> s1" using assms(3) by (simp add: acceptLo_def split: if_splits)
  then obtain y where y: "s1 = 0x80 + y" using le_Suc_ex by blast
  obtain z where z: "s2 = 0x80 + z" using assms(5) le_Suc_ex unfolding continuationByte_def by blast
  obtain t where t: "s3 = 0x80 + t" using assms(6) le_Suc_ex unfolding continuationByte_def by blast
  have bx: "x \<le> 4" using assms(2) x by simp
  have bz: "z \<le> 63" using assms(5) z by (simp add: continuationByte_def)
  have bt: "t \<le> 63" using assms(6) t by (simp add: continuationByte_def)
  have by1: "y \<le> 63" using assms(4) y by (simp add: acceptHi_def split: if_splits)
  have lo: "x = 0 \<longrightarrow> 16 \<le> y" using assms(3) x y by (auto simp: acceptLo_def)
  have hi: "x = 4 \<longrightarrow> y \<le> 15" using assms(4) x y by (auto simp: acceptHi_def)
  have e: "rune4 s0 s1 s2 s3 = x * 262144 + y * 4096 + z * 64 + t"
    unfolding rune4_def x y z t by simp
  have 1: "0x10000 \<le> x * 262144 + y * 4096 + z * 64 + t" using lo by (cases "x = 0") simp_all
  have 2: "x * 262144 + y * 4096 + z * 64 + t \<le> 0x10FFFF"
  proof (cases "x = 4")
    case True
    with hi show ?thesis using bz bt by simp
  next
    case False
    with bx have "x \<le> 3" by simp
    then show ?thesis using by1 bz bt by simp
  qed
  from 1 2 show ?thesis unfolding e by simp
qed

lemma decode_valid: "utf8_DecodeRune (b # bs) = (c, width) \<Longrightarrow> utf8_ValidRune c"
proof -
  assume d: "utf8_DecodeRune (b # bs) = (c, width)"
  have e: "utf8_ValidRune utf8_RuneError"
    by (simp add: utf8_ValidRune_def utf8_RuneError_def)
  have r1: "utf8_ValidRune s0" if "s0 < 0x80" for s0
    using that by (simp add: utf8_ValidRune_def)
  have r2: "utf8_ValidRune (rune2 s0 s1)" if "0xC2 \<le> s0" "s0 \<le> 0xDF" "acceptLo s0 \<le> s1" "s1 \<le> acceptHi s0"
    for s0 s1
    using rune2_bounds [of s0 s1] that
    by (simp add: utf8_ValidRune_def acceptLo_def acceptHi_def split: if_splits)
  have r4: "utf8_ValidRune (rune4 s0 s1 s2 s3)" if "0xF0 \<le> s0" "s0 \<le> 0xF4" "acceptLo s0 \<le> s1"
    "s1 \<le> acceptHi s0" "continuationByte s2" "continuationByte s3" for s0 s1 s2 s3
    using rune4_bounds [OF that] by (simp add: utf8_ValidRune_def)
  show ?thesis
    using d e r1 r2 r4 rune3_bounds
    by (auto split: if_splits list.splits)
qed

lemma decodeRunes_valid: "c \<in> set (decodeRunes s) \<Longrightarrow> utf8_ValidRune c"
proof (induction s arbitrary: c rule: decodeRunes.induct)
  case 1
  then show ?case by simp
next
  case (2 b bs)
  obtain c0 w where d: "utf8_DecodeRune (b # bs) = (c0, w)" by force
  from 2(2) d have "c = c0 \<or> c \<in> set (decodeRunes (drop w (b # bs)))"
    by simp
  then show ?case
    using decode_valid [OF d] 2(1) [OF d [symmetric]] by blast
qed

lemma hyphenate_high: "0x80 \<le> b \<Longrightarrow> hyphenate b = b"
  by (simp add: hyphenate_def)

lemma hyphenate_low: "hyphenate b < 0x80 \<longleftrightarrow> b < 0x80"
  by (simp add: hyphenate_def)

lemma hyphenate_accept:
  "acceptLo s0 \<le> hyphenate x \<longleftrightarrow> acceptLo s0 \<le> x"
  "hyphenate x \<le> acceptHi s0 \<longleftrightarrow> x \<le> acceptHi s0"
  by (simp_all add: hyphenate_def acceptLo_def acceptHi_def)

lemma hyphenate_continuation: "continuationByte (hyphenate x) = continuationByte x"
  by (simp add: hyphenate_def continuationByte_def)

lemma hyphenate_idem: "hyphenate (hyphenate x) = hyphenate x"
  by (simp add: hyphenate_def)

lemma decode_cases:
  obtains (ascii) "b < 0x80" "utf8_DecodeRune (b # bs) = (b, 1)"
  | (two) s1 rest where "bs = s1 # rest" "0xC2 \<le> b" "b \<le> 0xDF"
      "acceptLo b \<le> s1" "s1 \<le> acceptHi b" "utf8_DecodeRune (b # bs) = (rune2 b s1, 2)"
  | (three) s1 s2 rest where "bs = s1 # s2 # rest" "0xE0 \<le> b" "b \<le> 0xEF"
      "acceptLo b \<le> s1" "s1 \<le> acceptHi b" "continuationByte s2"
      "utf8_DecodeRune (b # bs) = (rune3 b s1 s2, 3)"
  | (four) s1 s2 s3 rest where "bs = s1 # s2 # s3 # rest" "0xF0 \<le> b" "b \<le> 0xF4"
      "acceptLo b \<le> s1" "s1 \<le> acceptHi b" "continuationByte s2" "continuationByte s3"
      "utf8_DecodeRune (b # bs) = (rune4 b s1 s2 s3, 4)"
  | (bad) "0x80 \<le> b" "utf8_DecodeRune (b # bs) = (utf8_RuneError, 1)"
proof (cases "b < 0x80")
  case True
  then show ?thesis using ascii by simp
next
  case nb: False
  show ?thesis
  proof (cases "utf8_DecodeRune (b # bs) = (utf8_RuneError, 1)")
    case True
    with nb show ?thesis using bad by simp
  next
    case False
    then show ?thesis
      using nb two three four
      by (simp split: if_splits list.splits)
  qed
qed

lemma decode_high:
  assumes "utf8_DecodeRune (b # bs) = (c, width)" and "0x80 \<le> b"
  shows "0x80 \<le> c"
proof (cases rule: decode_cases [of b bs])
  case ascii
  with assms show ?thesis by simp
next
  case (two s1 rest)
  have "0x80 \<le> s1" "s1 \<le> 0xBF"
    using two(4,5) by (simp_all add: acceptLo_def acceptHi_def split: if_splits)
  from rune2_bounds [OF two(2,3) this] two(6) assms(1) show ?thesis by simp
next
  case (three s1 s2 rest)
  from rune3_bounds [OF three(2-6)] three(7) assms(1) show ?thesis by simp
next
  case (four s1 s2 s3 rest)
  from rune4_bounds [OF four(2-7)] four(8) assms(1) show ?thesis by simp
next
  case bad
  with assms(1) show ?thesis by (simp add: utf8_RuneError_def)
qed

lemma decode_hyphenate:
  "utf8_DecodeRune (map hyphenate (b # bs)) =
     (case utf8_DecodeRune (b # bs) of (c, width) \<Rightarrow> (hyphenate c, width))"
proof (cases "b < 0x80")
  case True
  then show ?thesis by (simp add: hyphenate_low)
next
  case False
  then have hb: "hyphenate b = b" by (simp add: hyphenate_high)
  obtain c width where d: "utf8_DecodeRune (b # bs) = (c, width)" by force
  from decode_high [OF d] False have hc: "hyphenate c = c" by (simp add: hyphenate_high)
  have a: "hyphenate x = x" if "acceptLo b \<le> x" for x
    using that by (simp add: hyphenate_def acceptLo_def split: if_splits)
  have c: "hyphenate x = x" if "continuationByte x" for x
    using that by (simp add: hyphenate_def continuationByte_def)
  have "utf8_DecodeRune (b # map hyphenate bs) = utf8_DecodeRune (b # bs)"
    using False by (auto simp: a c hyphenate_accept hyphenate_continuation split: list.splits)
  then have "utf8_DecodeRune (map hyphenate (b # bs)) = (c, width)"
    by (simp only: list.map hb d)
  then show ?thesis by (simp only: d prod.case hc)
qed

lemma decodeRunes_hyphenate: "decodeRunes (map hyphenate s) = map hyphenate (decodeRunes s)"
proof (induction s rule: decodeRunes.induct)
  case 1
  then show ?case by simp
next
  case (2 b bs)
  obtain c w where d: "utf8_DecodeRune (b # bs) = (c, w)" by force
  have m: "map hyphenate (b # bs) = hyphenate b # map hyphenate bs" by simp
  have dh: "utf8_DecodeRune (hyphenate b # map hyphenate bs) = (hyphenate c, w)"
    using decode_hyphenate [of b bs] by (simp only: m d prod.case)
  have "decodeRunes (map hyphenate (b # bs)) =
          hyphenate c # decodeRunes (drop w (hyphenate b # map hyphenate bs))"
    by (simp only: m decodeRunes.simps dh prod.case)
  also have "drop w (hyphenate b # map hyphenate bs) = map hyphenate (drop w (b # bs))"
    by (simp only: m [symmetric] drop_map)
  also have "decodeRunes (map hyphenate (drop w (b # bs)))
      = map hyphenate (decodeRunes (drop w (b # bs)))"
    using 2 [OF d [symmetric]] by simp
  also have "hyphenate c # map hyphenate (decodeRunes (drop w (b # bs)))
      = map hyphenate (decodeRunes (b # bs))"
    by (simp only: decodeRunes.simps d prod.case list.map)
  finally show ?case .
qed

lemma encode_high: "0x80 \<le> r \<Longrightarrow> b \<in> set (utf8_EncodeRune r) \<Longrightarrow> 0x80 \<le> b"
  by (cases r rule: encode_cases) auto

lemma encode_byte: "b \<in> set (utf8_EncodeRune r) \<Longrightarrow> b < 256"
proof (cases r rule: encode_cases)
  case one
  assume "b \<in> set (utf8_EncodeRune r)"
  with one show ?thesis by simp
next
  case two
  assume "b \<in> set (utf8_EncodeRune r)"
  moreover from two_byte_lead [OF two(1,2)] have "0xC0 + r div 64 < 256" by simp
  moreover have "0x80 + r mod 64 < 256" using mod64_bound(1) [of r] by simp
  ultimately show ?thesis using two(3) by auto
next
  case bad
  assume "b \<in> set (utf8_EncodeRune r)"
  with bad show ?thesis by auto
next
  case three
  assume "b \<in> set (utf8_EncodeRune r)"
  moreover from three_byte_lead [OF three(1,2)] have "0xE0 + r div 4096 < 256" by simp
  moreover have "0x80 + r mod 64 < 256" "0x80 + (r div 64) mod 64 < 256"
    using mod64_bound(1) [of r] mod64_bound(1) [of "r div 64"] by simp_all
  ultimately show ?thesis using three(4) by auto
next
  case four
  assume "b \<in> set (utf8_EncodeRune r)"
  moreover from four_byte_lead [OF four(1,2)] have "0xF0 + r div 262144 < 256" by simp
  moreover have "0x80 + r mod 64 < 256" "0x80 + (r div 64) mod 64 < 256"
      "0x80 + (r div 4096) mod 64 < 256"
    using mod64_bound(1) [of r] mod64_bound(1) [of "r div 64"] mod64_bound(1) [of "r div 4096"]
    by simp_all
  ultimately show ?thesis using four(3) by auto
qed

lemma encode_hyphenate: "map hyphenate (utf8_EncodeRune r) = utf8_EncodeRune (hyphenate r)"
proof (cases "r \<le> 0x7F")
  case True
  then show ?thesis by (simp add: utf8_EncodeRune_def hyphenate_def)
next
  case False
  then have h: "hyphenate r = r" by (simp add: hyphenate_high)
  have "map hyphenate (utf8_EncodeRune r) = map id (utf8_EncodeRune r)"
  proof (rule map_cong [OF refl])
    fix b assume "b \<in> set (utf8_EncodeRune r)"
    with False encode_high [of r b] show "hyphenate b = id b" by (simp add: hyphenate_high)
  qed
  then show ?thesis by (simp add: h)
qed

subsection \<open>The normal form\<close>

lemma strings_Replace_space_hyphen:
  "n < 0 \<Longrightarrow> strings_Replace s '' '' ''-'' n = map (\<lambda>c. if c = CHR '' '' then CHR ''-'' else c) s"
  by (induction s arbitrary: n) auto

lemma of_char_char_of_byte: "b < 256 \<Longrightarrow> (of_char (char_of b) :: nat) = b"
  by simp

lemma char_of_hyphenate:
  "b < 256 \<Longrightarrow> (if char_of b = CHR '' '' then CHR ''-'' else char_of b) = char_of (hyphenate b)"
proof -
  assume b: "b < 256"
  have s: "(of_char CHR '' '' :: nat) = 32" by simp
  have "char_of b = CHR '' '' \<longleftrightarrow> b = 32"
  proof
    assume "char_of b = CHR '' ''"
    then have "(of_char (char_of b) :: nat) = of_char CHR '' ''" by (simp only:)
    with b s show "b = 32" by (simp only: of_char_char_of_byte)
  next
    have "char_of (32::nat) = CHR '' ''" by code_simp
    moreover assume "b = 32"
    ultimately show "char_of b = CHR '' ''" by simp
  qed
  moreover have "char_of (45::nat) = CHR ''-''" by code_simp
  ultimately show ?thesis by (simp add: hyphenate_def)
qed

lemma strings_Map_bytes: "b \<in> set (strings_Map f s) \<Longrightarrow> b < 256"
  by (auto simp: strings_Map_def dest: encode_byte)

lemma hyphenate_byte: "b < 256 \<Longrightarrow> hyphenate b < 256"
  by (simp add: hyphenate_def)

lemma sanitizeBytes_bytes: "b \<in> set (sanitizeBytes tbl s) \<Longrightarrow> b < 256"
  by (auto simp: sanitizeBytes_def dest: strings_Map_bytes hyphenate_byte)

lemma sanitizeActionName_bytes: "sanitizeActionName tbl s = map char_of (sanitizeBytes tbl s)"
proof -
  have "map (\<lambda>c. if c = CHR '' '' then CHR ''-'' else c)
          (map char_of (strings_Map (unicode_ToLower tbl) (map of_char s)))
        = map char_of (map hyphenate (strings_Map (unicode_ToLower tbl) (map of_char s)))"
    by (simp add: char_of_hyphenate strings_Map_bytes)
  then show ?thesis
    by (simp add: sanitizeActionName_def strings_ToLower_def strings_Replace_space_hyphen
          sanitizeBytes_def)
qed

lemma of_char_sanitizeActionName:
  "map of_char (sanitizeActionName tbl s) = sanitizeBytes tbl s"
proof -
  have "map (of_char \<circ> char_of) (sanitizeBytes tbl s) = map id (sanitizeBytes tbl s)"
    by (rule map_cong [OF refl]) (simp add: sanitizeBytes_bytes)
  then show ?thesis by (simp add: sanitizeActionName_bytes)
qed

lemma unicode_ToLower_ok:
  assumes "caseTable_ok tbl" and "utf8_ValidRune r"
  shows "utf8_ValidRune (unicode_ToLower tbl r)"
    and "unicode_ToLower tbl (unicode_ToLower tbl r) = unicode_ToLower tbl r"
proof -
  show "utf8_ValidRune (unicode_ToLower tbl r)"
  proof (cases "r \<le> 0x7F")
    case True
    then show ?thesis by (simp add: unicode_ToLower_def utf8_ValidRune_def)
  next
    case False
    with assms show ?thesis by (simp add: unicode_ToLower_def caseTable_ok_def)
  qed
  show "unicode_ToLower tbl (unicode_ToLower tbl r) = unicode_ToLower tbl r"
  proof (cases "r \<le> 0x7F")
    case True
    then show ?thesis by (simp add: unicode_ToLower_def)
  next
    case False
    with assms have "unicode_ToLower tbl (tbl r) = tbl r" by (simp add: caseTable_ok_def)
    with False show ?thesis by (simp add: unicode_ToLower_def [of tbl r])
  qed
qed

lemma unicode_ToLower_hyphenate:
  assumes "caseTable_ok tbl" and "utf8_ValidRune r"
  shows "unicode_ToLower tbl (hyphenate (normRune (unicode_ToLower tbl r)))
           = hyphenate (unicode_ToLower tbl r)"
proof -
  have n: "normRune (unicode_ToLower tbl r) = unicode_ToLower tbl r"
    using unicode_ToLower_ok(1) [OF assms] by (simp add: normRune_def)
  show ?thesis
    unfolding n
  proof (cases "unicode_ToLower tbl r = 0x20")
    case True
    have "unicode_ToLower tbl 45 = 45" by (simp add: unicode_ToLower_def)
    with True show "unicode_ToLower tbl (hyphenate (unicode_ToLower tbl r))
        = hyphenate (unicode_ToLower tbl r)"
      by (simp add: hyphenate_def)
  next
    case False
    then show "unicode_ToLower tbl (hyphenate (unicode_ToLower tbl r))
        = hyphenate (unicode_ToLower tbl r)"
      using unicode_ToLower_ok(2) [OF assms] by (simp add: hyphenate_def)
  qed
qed

lemma strings_Map_hyphenate:
  "map hyphenate (strings_Map f s) = concat (map (\<lambda>c. utf8_EncodeRune (hyphenate (f c))) (decodeRunes s))"
  by (simp add: strings_Map_def map_concat comp_def encode_hyphenate)

lemma encode_normRune: "utf8_EncodeRune (normRune r) = utf8_EncodeRune r"
proof (cases "utf8_ValidRune r")
  case True
  then show ?thesis by (simp add: normRune_def)
next
  case False
  then have "utf8_EncodeRune r = [0xEF, 0xBF, 0xBD]"
    by (auto simp: utf8_EncodeRune_def utf8_ValidRune_def)
  moreover have "utf8_EncodeRune utf8_RuneError = [0xEF, 0xBF, 0xBD]"
    by (simp add: utf8_EncodeRune_def utf8_RuneError_def)
  ultimately show ?thesis using False by (simp add: normRune_def)
qed

lemma decodeRunes_concat_encode_map:
  "decodeRunes (concat (map (\<lambda>c. utf8_EncodeRune (f c)) cs)) = map (\<lambda>c. normRune (f c)) cs"
  using decodeRunes_concat_encode [of "map f cs"] by (simp add: comp_def)

lemma strings_Map_sanitizeBytes:
  assumes "caseTable_ok tbl"
  shows "strings_Map (unicode_ToLower tbl) (sanitizeBytes tbl s) = sanitizeBytes tbl s"
proof -
  let ?L = "unicode_ToLower tbl"
  let ?cs = "decodeRunes (map of_char s)"
  have d: "decodeRunes (sanitizeBytes tbl s) = map (\<lambda>c. hyphenate (normRune (?L c))) ?cs"
    unfolding sanitizeBytes_def strings_Map_def
    by (simp only: decodeRunes_hyphenate decodeRunes_concat_encode_map) simp
  have "strings_Map ?L (sanitizeBytes tbl s)
      = concat (map (\<lambda>c. utf8_EncodeRune (?L (hyphenate (normRune (?L c))))) ?cs)"
    unfolding strings_Map_def [of ?L "sanitizeBytes tbl s"] d by (simp add: comp_def)
  also have "\<dots> = concat (map (\<lambda>c. utf8_EncodeRune (hyphenate (?L c))) ?cs)"
  proof -
    have "?L (hyphenate (normRune (?L c))) = hyphenate (?L c)" if "c \<in> set ?cs" for c
      using unicode_ToLower_hyphenate [OF assms decodeRunes_valid [OF that]] .
    then show ?thesis by (simp cong: map_cong)
  qed
  also have "\<dots> = sanitizeBytes tbl s"
    by (simp add: sanitizeBytes_def strings_Map_hyphenate)
  finally show ?thesis .
qed

lemma sanitizeBytes_hyphenate: "map hyphenate (sanitizeBytes tbl s) = sanitizeBytes tbl s"
  by (simp add: sanitizeBytes_def hyphenate_idem)

lemma decodeRunes_ascii: "\<forall>b\<in>set bs. b < 0x80 \<Longrightarrow> decodeRunes bs = bs"
  by (induction bs) simp_all

lemma of_char_space: "(of_char CHR '' '' :: nat) = 32"
  by simp

lemma of_char_lowered:
  "65 \<le> (n::nat) \<Longrightarrow> n \<le> 90 \<Longrightarrow> (of_char (char_of (n + 32)) :: nat) = n + 32"
  by simp

lemma lowered_not_space: "65 \<le> (n::nat) \<Longrightarrow> n \<le> 90 \<Longrightarrow> char_of (n + 32) \<noteq> CHR '' ''"
proof
  assume h: "65 \<le> n" "n \<le> 90" and e: "char_of (n + 32) = CHR '' ''"
  have "(of_char (char_of (n + 32)) :: nat) = of_char CHR '' ''"
    by (simp only: e)
  with of_char_space of_char_lowered[OF h] have "n + 32 = 32" by (simp only:)
  with h show False by simp
qed

lemma upper_not_space: "isUpperASCII c \<Longrightarrow> c \<noteq> CHR '' ''"
  unfolding isUpperASCII_def by (auto simp only: of_char_space)

lemma toLowerByte_fixed: "\<not> isUpperASCII c \<Longrightarrow> toLowerByte c = c"
  by (simp add: toLowerByte_def)

lemma toLowerByte_space: "toLowerByte c = CHR '' '' \<longleftrightarrow> c = CHR '' ''"
proof (cases "isUpperASCII c")
  case False
  then show ?thesis by (simp add: toLowerByte_fixed)
next
  case True
  then have "toLowerByte c \<noteq> CHR '' ''"
    unfolding toLowerByte_def isUpperASCII_def using lowered_not_space by simp
  with upper_not_space[OF True] show ?thesis by simp
qed

lemma toLower_ascii_rune:
  "isASCII c \<Longrightarrow> utf8_EncodeRune (unicode_ToLower tbl (of_char c)) = [of_char (toLowerByte c)]"
  by (simp add: isASCII_def unicode_ToLower_def utf8_EncodeRune_def toLowerByte_def isUpperASCII_def)

lemma strings_ToLower_ascii:
  assumes "list_all isASCII s"
  shows "strings_ToLower tbl s = map toLowerByte s"
proof -
  from assms have "\<forall>b\<in>set (map of_char s). b < (0x80::nat)"
    by (auto simp: list_all_iff isASCII_def)
  then have d: "decodeRunes (map of_char s) = map of_char s"
    by (rule decodeRunes_ascii)
  have "concat (map (\<lambda>c. utf8_EncodeRune (unicode_ToLower tbl c)) (map of_char s))
      = map of_char (map toLowerByte s)"
    using assms by (induction s) (simp_all add: toLower_ascii_rune)
  then show ?thesis
    by (simp add: strings_ToLower_def strings_Map_def d comp_def)
qed

lemma sanitizeActionName_ascii:
  assumes "list_all isASCII s"
  shows "sanitizeActionName tbl s = map sanitizeByte s"
proof -
  have "(\<lambda>c. if c = CHR '' '' then CHR ''-'' else c) \<circ> toLowerByte = sanitizeByte"
    by (rule ext) (simp add: sanitizeByte_def toLowerByte_space)
  then show ?thesis
    by (simp add: sanitizeActionName_def strings_ToLower_ascii [OF assms]
          strings_Replace_space_hyphen)
qed

lemma sanitize_My_Action: "sanitizeActionName tbl ''My Action'' = ''my-action''"
proof -
  have a: "list_all isASCII ''My Action''"
    by (simp add: isASCII_def)
  have m: "map sanitizeByte ''My Action'' = ''my-action''"
    by code_simp
  show ?thesis
    by (simp only: sanitizeActionName_ascii [OF a] m)
qed

lemma sanitizeBytes_concat:
  "sanitizeBytes tbl s =
     concat (map (\<lambda>c. utf8_EncodeRune (hyphenate (unicode_ToLower tbl c))) (decodeRunes (map of_char s)))"
  by (simp add: sanitizeBytes_def strings_Map_hyphenate)

lemma sanitizeBytes_not_upper:
  assumes ok: "caseTable_ok tbl" and b: "b \<in> set (sanitizeBytes tbl s)"
  shows "\<not> (65 \<le> b \<and> b \<le> 90)"
proof
  assume u: "65 \<le> b \<and> b \<le> 90"
  from b obtain c where c: "c \<in> set (decodeRunes (map of_char s))"
    and e: "b \<in> set (utf8_EncodeRune (hyphenate (unicode_ToLower tbl c)))"
    by (auto simp: sanitizeBytes_concat)
  let ?r = "hyphenate (unicode_ToLower tbl c)"
  have low: "?r < 0x80"
  proof (rule ccontr)
    assume "\<not> ?r < 0x80"
    then have "0x80 \<le> ?r" by simp
    from encode_high [OF this e] u show False by simp
  qed
  then have "utf8_EncodeRune ?r = [?r]" by (simp add: utf8_EncodeRune_def)
  with e have br: "b = ?r" by simp
  with u have l: "unicode_ToLower tbl c = b"
    by (simp add: hyphenate_def split: if_splits)
  from unicode_ToLower_ok(2) [OF ok decodeRunes_valid [OF c]]
  have "unicode_ToLower tbl b = b" by (simp add: l)
  with u show False by (simp add: unicode_ToLower_def)
qed

text \<open>
  C10. For every string \<open>s\<close>, the normalised name is lowercase (lower-casing it again
  changes nothing, and it holds no letter \<open>A\<close> to \<open>Z\<close>), it holds no space, and
  normalising it again changes nothing. This holds with every Unicode case table that maps
  runes to runes and is idempotent, as the tables of \<^verbatim>\<open>unicode.ToLower\<close> are.
\<close>

theorem sanitizeActionName_normal_form:
  assumes "caseTable_ok tbl"
  shows "strings_ToLower tbl (sanitizeActionName tbl s) = sanitizeActionName tbl s
         \<and> \<not> list_ex isUpperASCII (sanitizeActionName tbl s)
         \<and> CHR '' '' \<notin> set (sanitizeActionName tbl s)
         \<and> sanitizeActionName tbl (sanitizeActionName tbl s) = sanitizeActionName tbl s"
proof -
  let ?n = "sanitizeActionName tbl s"
  have 1: "strings_ToLower tbl ?n = ?n"
    unfolding strings_ToLower_def of_char_sanitizeActionName
      strings_Map_sanitizeBytes [OF assms]
    by (simp add: sanitizeActionName_bytes)
  have 2: "\<not> list_ex isUpperASCII ?n"
  proof
    assume "list_ex isUpperASCII ?n"
    then obtain b where b: "b \<in> set (sanitizeBytes tbl s)" and u: "isUpperASCII (char_of b)"
      by (auto simp: list_ex_iff sanitizeActionName_bytes)
    from sanitizeBytes_bytes [OF b] have "(of_char (char_of b) :: nat) = b" by simp
    with u have "65 \<le> b \<and> b \<le> 90" by (simp add: isUpperASCII_def)
    with sanitizeBytes_not_upper [OF assms b] show False by simp
  qed
  have 3: "CHR '' '' \<notin> set ?n"
    by (auto simp: sanitizeActionName_def strings_Replace_space_hyphen)
  have "sanitizeBytes tbl ?n = sanitizeBytes tbl s"
    unfolding sanitizeBytes_def [of tbl ?n] of_char_sanitizeActionName
      strings_Map_sanitizeBytes [OF assms]
    by (rule sanitizeBytes_hyphenate)
  then have 4: "sanitizeActionName tbl ?n = ?n"
    by (simp add: sanitizeActionName_bytes)
  from 1 2 3 4 show ?thesis by blast
qed

lemma latin1Lower_ok: "caseTable_ok latin1Lower"
  unfolding caseTable_ok_def
proof (intro allI impI)
  fix r assume "0x80 \<le> r \<and> utf8_ValidRune r"
  then have r: "0x80 \<le> r" and v: "utf8_ValidRune r" by simp_all
  show "utf8_ValidRune (latin1Lower r) \<and> unicode_ToLower latin1Lower (latin1Lower r) = latin1Lower r"
  proof (cases "0xC0 \<le> r \<and> r \<le> 0xDE \<and> r \<noteq> 0xD7")
    case True
    then have "latin1Lower r = r + 0x20" by (simp add: latin1Lower_def)
    with True show ?thesis
      by (simp add: utf8_ValidRune_def unicode_ToLower_def latin1Lower_def)
  next
    case False
    then have "latin1Lower r = r" by (auto simp: latin1Lower_def)
    with r v False show ?thesis
      by (auto simp: unicode_ToLower_def latin1Lower_def)
  qed
qed

lemma sanitize_mixedName: "sanitizeActionName latin1Lower mixedName = mixedNameNormal"
proof -
  have b: "map of_char mixedName = [0x41, 0x20, 0x62, 0xC3, 0x89, 0xFF :: nat]"
    by (simp add: mixedName_def)
  have d: "decodeRunes [0x41, 0x20, 0x62, 0xC3, 0x89, 0xFF] = [0x41, 0x20, 0x62, 0xC9, utf8_RuneError]"
    by (simp add: acceptLo_def acceptHi_def rune2_def)
  have l: "map (unicode_ToLower latin1Lower) [0x41, 0x20, 0x62, 0xC9, utf8_RuneError]
      = [0x61, 0x20, 0x62, 0xE9, utf8_RuneError]"
    by (simp add: unicode_ToLower_def latin1Lower_def utf8_RuneError_def)
  have e: "concat (map utf8_EncodeRune [0x61, 0x20, 0x62, 0xE9, utf8_RuneError])
      = [0x61, 0x20, 0x62, 0xC3, 0xA9, 0xEF, 0xBF, 0xBD]"
    by (simp add: utf8_EncodeRune_def utf8_RuneError_def)
  have "strings_Map (unicode_ToLower latin1Lower) (map of_char mixedName)
      = concat (map utf8_EncodeRune (map (unicode_ToLower latin1Lower)
          (decodeRunes (map of_char mixedName))))"
    by (simp add: strings_Map_def comp_def)
  then have "sanitizeBytes latin1Lower mixedName = [0x61, 0x2D, 0x62, 0xC3, 0xA9, 0xEF, 0xBF, 0xBD]"
    unfolding sanitizeBytes_def b d l e by (simp add: hyphenate_def)
  then show ?thesis
    by (simp add: sanitizeActionName_bytes mixedNameNormal_def)
qed

theorem sanitizeActionName_normal_form_witness:
  "caseTable_ok latin1Lower
   \<and> sanitizeActionName latin1Lower mixedName = mixedNameNormal
   \<and> strings_ToLower latin1Lower mixedNameNormal = mixedNameNormal
   \<and> \<not> list_ex isUpperASCII mixedNameNormal
   \<and> CHR '' '' \<notin> set mixedNameNormal
   \<and> sanitizeActionName latin1Lower mixedNameNormal = mixedNameNormal"
  using sanitizeActionName_normal_form [OF latin1Lower_ok, of mixedName] latin1Lower_ok
  unfolding sanitize_mixedName by simp

section \<open>Helper facts\<close>

text \<open>
  A client call extends the record of calls by one entry; the two definition bundles
  unfold the client layer and the in-memory platform when a handler is evaluated.
\<close>

lemma perform_eq:
  "f (platform w) = (r, p) \<Longrightarrow> perform c f w = (r, \<lparr>platform = p, calls = calls w @ [c]\<rparr>)"
  by (simp add: perform_def)

lemma namespaceOrDefault_idem: "namespaceOrDefault (namespaceOrDefault ns) = namespaceOrDefault ns"
  by (simp add: namespaceOrDefault_def)

lemmas mem_ops = memEnv_def mem_configurations_Create_def mem_configurations_Get_def
  mem_configurations_List_def mem_configurations_Delete_def mem_routes_Create_def
  mem_routes_Get_def mem_routes_Delete_def mem_http_Do_def mem_json_Unmarshal_def
  notFoundError_def alreadyExistsError_def internalError_def plainError_def

lemmas client_ops = Configurations_Create_def Configurations_Get_def Configurations_List_def
  Configurations_Delete_def Routes_Create_def Routes_Get_def Routes_Delete_def HTTP_Do_def
  perform_def start_def

section \<open>Properties of the Action Codec\<close>

text \<open>
  C3. Codec round trip: when the request carries an \<open>exec\<close> whose image is not empty,
  decoding the Configuration built from the request gives back the name, the version and
  the whole \<open>exec\<close> (kind, code and image) of the request.
\<close>

theorem configToAction_updateAction_config:
  assumes "ap_Exec (up_Action params) = Some exec" and "ex_Image exec \<noteq> []"
  shows "configToAction (updateAction_config tbl params) =
           \<lparr>a_Name = Some (up_ActionName params),
            a_Namespace = Some (namespaceOrDefault (up_Namespace params)),
            a_Version = Some (ap_Version (up_Action params)),
            a_Exec = Some exec\<rparr>"
  using assms
  by (simp add: configToAction_def updateAction_config_def annotation_def Let_def)

theorem configToAction_updateAction_config_witness:
  "configToAction (updateAction_config latin1Lower demoUpdate)
     = \<lparr>a_Name = Some ''My Action'', a_Namespace = Some ''default'', a_Version = Some ''0.0.1'',
        a_Exec = Some demoExec\<rparr>"
proof -
  have ex: "ap_Exec (up_Action demoUpdate) = Some demoExec"
    by (simp add: demoUpdate_def)
  have im: "ex_Image demoExec \<noteq> []"
    by (simp add: demoExec_def)
  show ?thesis
    using configToAction_updateAction_config [OF ex im]
    by (simp add: demoUpdate_def namespaceOrDefault_def)
qed

text \<open>
  C9. \<open>configToAction\<close> is a total function into Actions, with no error result: every
  pointer field of its result is set, and each of the four annotation keys that is absent
  decodes to the empty string. When the platform lists the Configurations, List answers
  OK with the decoding of every item, in order.
\<close>

theorem configToAction_total:
  fixes env :: "('p, 'j) env"
  shows "(\<exists>name ns version exec.
            configToAction config =
              \<lparr>a_Name = Some name, a_Namespace = Some ns, a_Version = Some version, a_Exec = Some exec\<rparr>)
         \<and> (om_Annotations (cfg_ObjectMeta config) ''kwsk_action_name'' = None \<longrightarrow>
               a_Name (configToAction config) = Some [])
         \<and> (om_Annotations (cfg_ObjectMeta config) ''kwsk_action_version'' = None \<longrightarrow>
               a_Version (configToAction config) = Some [])
         \<and> (om_Annotations (cfg_ObjectMeta config) ''kwsk_action_kind'' = None \<longrightarrow>
               map_option ex_Kind (a_Exec (configToAction config)) = Some [])
         \<and> (om_Annotations (cfg_ObjectMeta config) ''kwsk_action_code'' = None \<longrightarrow>
               map_option ex_Code (a_Exec (configToAction config)) = Some [])
         \<and> (\<forall>items p1. configurations_List env (namespaceOrDefault (lp_Namespace params)) (platform w)
                          = (Inr items, p1) \<longrightarrow>
               fst (getAllActionsFunc env params w) = GetAllActionsOK (map configToAction items))"
  by (simp add: configToAction_def annotation_def Let_def getAllActionsFunc_def
        Configurations_List_def perform_eq)

theorem configToAction_total_witness:
  "a_Name (configToAction bareConfig) = Some []
   \<and> a_Version (configToAction bareConfig) = Some []
   \<and> map_option ex_Kind (a_Exec (configToAction bareConfig)) = Some []
   \<and> map_option ex_Code (a_Exec (configToAction bareConfig)) = Some []
   \<and> fst (getAllActionsFunc (memEnv ''gateway:80'') \<lparr>lp_Namespace = ''_''\<rparr>
          (start \<lparr>mp_configurations = [((''default'', ''my-action''), demoConfig),
                                        ((''default'', ''bare''), bareConfig)],
                  mp_routes = [], mp_routes_failing = False, mp_replies = []\<rparr>))
     = GetAllActionsOK [configToAction demoConfig, configToAction bareConfig]"
proof -
  let ?p = "\<lparr>mp_configurations = [((''default'', ''my-action''), demoConfig),
                                        ((''default'', ''bare''), bareConfig)],
                  mp_routes = [], mp_routes_failing = False, mp_replies = []\<rparr>"
  have an: "om_Annotations (cfg_ObjectMeta bareConfig) k = None" for k
    by (simp add: bareConfig_def)
  have ls: "configurations_List (memEnv ''gateway:80'')
              (namespaceOrDefault (lp_Namespace \<lparr>lp_Namespace = ''_''\<rparr>)) (platform (start ?p))
            = (Inr [demoConfig, bareConfig], ?p)"
    by (simp add: memEnv_def mem_configurations_List_def namespaceOrDefault_def start_def)
  note t = configToAction_total
    [of bareConfig "memEnv ''gateway:80''" "\<lparr>lp_Namespace = ''_''\<rparr>" "start ?p"]
  have l: "fst (getAllActionsFunc (memEnv ''gateway:80'') \<lparr>lp_Namespace = ''_''\<rparr> (start ?p))
              = GetAllActionsOK (map configToAction [demoConfig, bareConfig])"
    using t ls by blast
  from t an l show ?thesis by simp
qed

section \<open>Properties of the Action Store\<close>

lemma deleteActionFunc_unfold:
  assumes dc: "configurations_Delete env (namespaceOrDefault (dp_Namespace params))
                 (sanitizeActionName (caseTable env) (dp_ActionName params)) (platform w) = (rc, p1)"
      and dr: "routes_Delete env (namespaceOrDefault (dp_Namespace params))
                 (sanitizeActionName (caseTable env) (dp_ActionName params)) p1 = (rr, p2)"
  shows "(case rc of
            Some err \<Rightarrow>
              deleteActionFunc env params w =
                (if errors_IsNotFound err then DeleteActionNotFound \<lparr>em_Error = Some (err_Error err)\<rparr>
                 else DeleteActionInternalServerError \<lparr>em_Error = Some (err_Error err)\<rparr>,
                 \<lparr>platform = p1,
                  calls = calls w @ [ConfigurationsDelete (namespaceOrDefault (dp_Namespace params))
                                       (sanitizeActionName (caseTable env) (dp_ActionName params))]\<rparr>)
          | None \<Rightarrow>
              deleteActionFunc env params w =
                (case rr of
                   Some err \<Rightarrow>
                     if errors_IsNotFound err then DeleteActionNotFound \<lparr>em_Error = Some (err_Error err)\<rparr>
                     else DeleteActionInternalServerError \<lparr>em_Error = Some (err_Error err)\<rparr>
                 | None \<Rightarrow> DeleteActionOK,
                 \<lparr>platform = p2,
                  calls = calls w @ [ConfigurationsDelete (namespaceOrDefault (dp_Namespace params))
                                       (sanitizeActionName (caseTable env) (dp_ActionName params)),
                                     RoutesDelete (namespaceOrDefault (dp_Namespace params))
                                       (sanitizeActionName (caseTable env) (dp_ActionName params))]\<rparr>))"
proof (cases rc)
  case (Some err)
  with dc show ?thesis
    by (simp add: deleteActionFunc_def Configurations_Delete_def perform_eq Let_def)
next
  case None
  with dc have 1: "Configurations_Delete env (namespaceOrDefault (dp_Namespace params))
                 (sanitizeActionName (caseTable env) (dp_ActionName params)) w
        = (None, \<lparr>platform = p1, calls = calls w @ [ConfigurationsDelete (namespaceOrDefault (dp_Namespace params))
                                       (sanitizeActionName (caseTable env) (dp_ActionName params))]\<rparr>)"
    by (simp add: Configurations_Delete_def perform_eq)
  from dr have 2: "Routes_Delete env (namespaceOrDefault (dp_Namespace params))
                 (sanitizeActionName (caseTable env) (dp_ActionName params))
                 \<lparr>platform = p1, calls = calls w @ [ConfigurationsDelete (namespaceOrDefault (dp_Namespace params))
                                       (sanitizeActionName (caseTable env) (dp_ActionName params))]\<rparr>
        = (rr, \<lparr>platform = p2, calls = calls w @ [ConfigurationsDelete (namespaceOrDefault (dp_Namespace params))
                                       (sanitizeActionName (caseTable env) (dp_ActionName params)),
                    RoutesDelete (namespaceOrDefault (dp_Namespace params))
                                       (sanitizeActionName (caseTable env) (dp_ActionName params))]\<rparr>)"
    by (simp add: Routes_Delete_def perform_eq)
  show ?thesis
    using None by (cases rr) (simp_all add: deleteActionFunc_def 1 2 Let_def)
qed

text \<open>
  C5. Delete deletes the Configuration first and then the Route, both under the resolved
  namespace and the normalised name; the Route is only touched when the Configuration
  delete succeeded. The first deletion error decides the response: NotFound when it is a
  not-found error, InternalError otherwise, OK when there is none. No call follows the
  Route delete, so when it fails after the Configuration was deleted the platform stays
  as the failed call left it: nothing is rolled back.
\<close>

theorem deleteActionFunc_outcome:
  fixes env :: "('p, 'j) env" and params :: deleteActionParams
  defines "ns \<equiv> namespaceOrDefault (dp_Namespace params)"
      and "n \<equiv> sanitizeActionName (caseTable env) (dp_ActionName params)"
  assumes dc: "configurations_Delete env ns n (platform w) = (rc, p1)"
      and dr: "routes_Delete env ns n p1 = (rr, p2)"
  shows "issued w (deleteActionFunc env params w)
           = ConfigurationsDelete ns n # (if rc = None then [RoutesDelete ns n] else [])
         \<and> fst (deleteActionFunc env params w)
           = (case firstError rc rr of
                None \<Rightarrow> DeleteActionOK
              | Some err \<Rightarrow>
                  if errors_IsNotFound err
                  then DeleteActionNotFound \<lparr>em_Error = Some (err_Error err)\<rparr>
                  else DeleteActionInternalServerError \<lparr>em_Error = Some (err_Error err)\<rparr>)
         \<and> platform (snd (deleteActionFunc env params w)) = (if rc = None then p2 else p1)"
  using deleteActionFunc_unfold [OF dc [unfolded ns_def n_def] dr [unfolded ns_def n_def]]
  unfolding ns_def n_def
  by (cases rc; cases rr) (simp_all add: issued_def firstError_def)

theorem deleteActionFunc_outcome_witness:
  "fst (deleteActionFunc (memEnv ''gateway:80'') demoDelete (start (deployed True [])))
     = DeleteActionInternalServerError \<lparr>em_Error = Some ''internal error''\<rparr>
   \<and> issued (start (deployed True []))
       (deleteActionFunc (memEnv ''gateway:80'') demoDelete (start (deployed True [])))
     = [ConfigurationsDelete ''default'' ''my-action'', RoutesDelete ''default'' ''my-action'']
   \<and> platform (snd (deleteActionFunc (memEnv ''gateway:80'') demoDelete (start (deployed True []))))
     = \<lparr>mp_configurations = [], mp_routes = [((''default'', ''my-action''), demoRoute)],
        mp_routes_failing = True, mp_replies = []\<rparr>"
proof -
  let ?p1 = "\<lparr>mp_configurations = [], mp_routes = [((''default'', ''my-action''), demoRoute)],
        mp_routes_failing = True, mp_replies = []\<rparr>"
  have ns: "namespaceOrDefault (dp_Namespace demoDelete) = ''default''"
    by (simp add: demoDelete_def namespaceOrDefault_def)
  have nm: "sanitizeActionName (caseTable (memEnv ''gateway:80'')) (dp_ActionName demoDelete) = ''my-action''"
    by (simp add: demoDelete_def sanitize_My_Action)
  have dc: "configurations_Delete (memEnv ''gateway:80'') (namespaceOrDefault (dp_Namespace demoDelete))
              (sanitizeActionName (caseTable (memEnv ''gateway:80'')) (dp_ActionName demoDelete)) (platform (start (deployed True [])))
            = (None, ?p1)"
    unfolding ns nm by (simp add: mem_ops start_def deployed_def)
  have dr: "routes_Delete (memEnv ''gateway:80'') (namespaceOrDefault (dp_Namespace demoDelete))
              (sanitizeActionName (caseTable (memEnv ''gateway:80'')) (dp_ActionName demoDelete)) ?p1
            = (Some internalError, ?p1)"
    unfolding ns nm by (simp add: memEnv_def mem_routes_Delete_def)
  show ?thesis
    using deleteActionFunc_outcome [OF dc dr] unfolding ns nm
    by (simp add: firstError_def internalError_def errors_IsNotFound_def)
qed

lemma getActionByName_eq:
  assumes "configurations_Get env (namespaceOrDefault ns) (sanitizeActionName (caseTable env) name) (platform w) = (got, p)"
  shows "getActionByName env name ns w =
           (case got of Inl err \<Rightarrow> Inl err | Inr config \<Rightarrow> Inr (configToAction config),
            \<lparr>platform = p,
             calls = calls w @ [ConfigurationsGet (namespaceOrDefault ns) (sanitizeActionName (caseTable env) name)]\<rparr>)"
  using assms
  by (cases got) (simp_all add: getActionByName_def Configurations_Get_def perform_eq Let_def)

lemma demo_config: "updateAction_config tbl demoUpdate = demoConfig"
  by (simp add: updateAction_config_def demoUpdate_def demoConfig_def demoExec_def Let_def
        sanitize_My_Action namespaceOrDefault_def)

lemma demo_route: "updateAction_route tbl demoUpdate
   = demoRoute\<lparr>rt_Status := \<lparr>rst_Domain = []\<rparr>\<rparr>"
  by (simp add: updateAction_route_def demoUpdate_def demoRoute_def Let_def
        sanitize_My_Action namespaceOrDefault_def)

lemma demo_update:
  "updateActionFunc (memEnv g) demoUpdate (start \<lparr>mp_configurations = [], mp_routes = [],
       mp_routes_failing = False, mp_replies = rs\<rparr>)
   = (UpdateActionOK (configToAction demoConfig),
      \<lparr>platform = deployed False rs,
       calls = [ConfigurationsCreate ''default'' demoConfig,
                RoutesCreate ''default'' (demoRoute\<lparr>rt_Status := \<lparr>rst_Domain = []\<rparr>\<rparr>),
                ConfigurationsGet ''default'' ''my-action'']\<rparr>)"
proof -
  have ns: "namespaceOrDefault (up_Namespace demoUpdate) = ''default''"
    by (simp add: demoUpdate_def namespaceOrDefault_def)
  have nd: "namespaceOrDefault ''default'' = ''default''"
    by (simp add: namespaceOrDefault_def)
  have nm: "sanitizeActionName tbl (up_ActionName demoUpdate) = ''my-action''" for tbl
    by (simp add: demoUpdate_def sanitize_My_Action)
  show ?thesis
    unfolding updateActionFunc_def getActionByName_def Let_def demo_config demo_route ns nd nm
    by (simp add: client_ops mem_ops deployed_def demoConfig_def demoRoute_def Let_def)
qed

text \<open>
  C2. Once the Configuration create has succeeded, the response of Create/Update is
  decided by the Get that follows the Route create: OK with the decoded Configuration, or
  InternalError with the text of the Get's error. The result of the Route create does not
  occur in it; in particular a failed Route create followed by a successful Get is
  answered with OK.
\<close>

theorem updateActionFunc_route_result_unused:
  fixes env :: "('p, 'j) env" and params :: updateActionParams
  defines "ns \<equiv> namespaceOrDefault (up_Namespace params)"
  assumes cc: "configurations_Create env ns (updateAction_config (caseTable env) params) (platform w) = (Inr created, p1)"
      and rc: "routes_Create env ns (updateAction_route (caseTable env) params) p1 = (routeResult, p2)"
      and cg: "configurations_Get env ns (sanitizeActionName (caseTable env) (up_ActionName params)) p2 = (got, p3)"
  shows "fst (updateActionFunc env params w) =
           (case got of
              Inl err \<Rightarrow> UpdateActionInternalServerError \<lparr>em_Error = Some (err_Error err)\<rparr>
            | Inr config \<Rightarrow> UpdateActionOK (configToAction config))
         \<and> (\<forall>err config. routeResult = Inl err \<and> got = Inr config \<longrightarrow>
               fst (updateActionFunc env params w) = UpdateActionOK (configToAction config))"
proof -
  let ?w1 = "\<lparr>platform = p1, calls = calls w @ [ConfigurationsCreate ns (updateAction_config (caseTable env) params)]\<rparr>"
  let ?w2 = "\<lparr>platform = p2, calls = calls ?w1 @ [RoutesCreate ns (updateAction_route (caseTable env) params)]\<rparr>"
  have 1: "Configurations_Create env ns (updateAction_config (caseTable env) params) w = (Inr created, ?w1)"
    using cc by (simp add: Configurations_Create_def perform_eq)
  have 2: "Routes_Create env ns (updateAction_route (caseTable env) params) ?w1 = (routeResult, ?w2)"
    using rc by (simp add: Routes_Create_def perform_eq)
  have "configurations_Get env (namespaceOrDefault ns) (sanitizeActionName (caseTable env) (up_ActionName params))
          (platform ?w2) = (got, p3)"
    using cg by (simp add: ns_def namespaceOrDefault_idem)
  note 3 = getActionByName_eq [OF this, simplified]
  have main: "fst (updateActionFunc env params w) =
           (case got of
              Inl err \<Rightarrow> UpdateActionInternalServerError \<lparr>em_Error = Some (err_Error err)\<rparr>
            | Inr config \<Rightarrow> UpdateActionOK (configToAction config))"
    unfolding updateActionFunc_def Let_def ns_def [symmetric]
    by (cases got) (simp_all add: 1 2 3)
  then show ?thesis by simp
qed

theorem updateActionFunc_route_result_unused_witness:
  "fst (updateActionFunc (memEnv ''gateway:80'') demoUpdate
          (start \<lparr>mp_configurations = [], mp_routes = [], mp_routes_failing = True, mp_replies = []\<rparr>))
     = UpdateActionOK
         \<lparr>a_Name = Some ''My Action'', a_Namespace = Some ''default'', a_Version = Some ''0.0.1'',
          a_Exec = Some demoExec\<rparr>"
proof -
  let ?p0 = "\<lparr>mp_configurations = [], mp_routes = [], mp_routes_failing = True, mp_replies = []\<rparr>"
  let ?p1 = "\<lparr>mp_configurations = [((''default'', ''my-action''), demoConfig)], mp_routes = [],
              mp_routes_failing = True, mp_replies = []\<rparr>"
  have ns: "namespaceOrDefault (up_Namespace demoUpdate) = ''default''"
    by (simp add: demoUpdate_def namespaceOrDefault_def)
  have nm: "sanitizeActionName (caseTable (memEnv ''gateway:80'')) (up_ActionName demoUpdate) = ''my-action''"
    by (simp add: demoUpdate_def sanitize_My_Action)
  have cc: "configurations_Create (memEnv ''gateway:80'') (namespaceOrDefault (up_Namespace demoUpdate))
              (updateAction_config (caseTable (memEnv ''gateway:80'')) demoUpdate) (platform (start ?p0)) = (Inr demoConfig, ?p1)"
    unfolding ns demo_config by (simp add: mem_ops start_def demoConfig_def)
  have rc: "routes_Create (memEnv ''gateway:80'') (namespaceOrDefault (up_Namespace demoUpdate))
              (updateAction_route (caseTable (memEnv ''gateway:80'')) demoUpdate) ?p1 = (Inl internalError, ?p1)"
    unfolding ns by (simp add: memEnv_def mem_routes_Create_def)
  have cg: "configurations_Get (memEnv ''gateway:80'') (namespaceOrDefault (up_Namespace demoUpdate))
              (sanitizeActionName (caseTable (memEnv ''gateway:80'')) (up_ActionName demoUpdate)) ?p1 = (Inr demoConfig, ?p1)"
    unfolding ns nm by (simp add: memEnv_def mem_configurations_Get_def)
  show ?thesis
    using updateActionFunc_route_result_unused [OF cc rc cg]
    by (simp add: configToAction_def demoConfig_def demoExec_def annotation_def)
qed

section \<open>Properties of the Invocation Bridge\<close>

lemma actionRequest_responds:
  assumes "responds env actionHost path requestBody (platform w) status resBody p'"
  shows "\<exists>w'. platform w' = p'
           \<and> actionRequest env (istio env) actionHost path requestBody w = ((status, resBody, None), w')"
proof (cases "json_Marshal env requestBody")
  case (Inl err)
  with assms show ?thesis by (simp add: responds_def)
next
  case (Inr body)
  with assms have u: "url_Parse_error env (''http://'' @ istio env @ ''/'' @ path) = None"
    and d: "http_Do env (postRequest (istio env) actionHost path body) (platform w)
              = (Inr \<lparr>res_StatusCode = status, res_Body = resBody\<rparr>, p')"
    by (simp_all add: responds_def)
  from d have "HTTP_Do env (postRequest (istio env) actionHost path body) w
      = (Inr \<lparr>res_StatusCode = status, res_Body = resBody\<rparr>,
         \<lparr>platform = p', calls = calls w @ [HTTPDo (postRequest (istio env) actionHost path body)]\<rparr>)"
    by (simp add: HTTP_Do_def perform_eq)
  then have "actionRequest env (istio env) actionHost path requestBody w
      = ((status, resBody, None),
         \<lparr>platform = p', calls = calls w @ [HTTPDo (postRequest (istio env) actionHost path body)]\<rparr>)"
    using Inr u by (simp add: actionRequest_def Let_def postRequest_def)
  then show ?thesis by simp
qed

lemma initAction_responds:
  assumes "responds env actionHost ''init''
             (InitBody \<lparr>im_Value = \<lparr>iv_Main = ''main'', iv_Code = actionCode\<rparr>\<rparr>) (platform w) status resBody p'"
      and "status = 403 \<or> status = 200"
  shows "\<exists>w'. platform w' = p' \<and> initAction env (istio env) actionHost actionCode w = (None, w')"
proof -
  from actionRequest_responds [OF assms(1)] obtain w' where "platform w' = p'"
    and "actionRequest env (istio env) actionHost ''init''
           (InitBody \<lparr>im_Value = \<lparr>iv_Main = ''main'', iv_Code = actionCode\<rparr>\<rparr>) w
         = ((status, resBody, None), w')"
    by blast
  with assms(2) show ?thesis
    by (auto simp: initAction_def Let_def)
qed

lemma runAction_responds:
  assumes "responds env actionHost ''run'' (RunBody \<lparr>rm_Value = ps\<rparr>) (platform w) status resBody p'"
  shows "\<exists>w'. platform w' = p'
           \<and> runAction env (istio env) actionHost name namespace ps w =
               (if status \<noteq> 200 then
                  InvokeActionInternalServerError
                    \<lparr>em_Error = Some (''Error invoking action. Status: '' @ fmt_d status
                                        @ '', Message: '' @ resBody @ [CHR 0x0A])\<rparr>
                else case json_Unmarshal env resBody of
                  Inl err \<Rightarrow>
                    InvokeActionInternalServerError
                      \<lparr>em_Error = Some (''Action invocation result was not valid JSON. Result: ''
                                          @ ''%!s(int='' @ fmt_d status @ '')'' @ [CHR 0x0A]
                                          @ ''%!(EXTRA []uint8='' @ fmt_bytes_v resBody @ '')'')\<rparr>
                | Inr resultJson \<Rightarrow>
                    InvokeActionOK
                      \<lparr>act_ActivationID = Some ''dummyactivationid'', act_Name = Some name,
                       act_Namespace = Some namespace,
                       act_Response = Some \<lparr>ar_Result = resultJson, ar_Success = True\<rparr>,
                       act_Logs = []\<rparr>, w')"
proof -
  from actionRequest_responds [OF assms(1)] obtain w' where "platform w' = p'"
    and "actionRequest env (istio env) actionHost ''run'' (RunBody \<lparr>rm_Value = ps\<rparr>) w
         = ((status, resBody, None), w')"
    by blast
  then show ?thesis
    by (auto simp: runAction_def Let_def split: sum.splits)
qed

lemma invokeActionFunc_resolved:
  assumes rg: "routes_Get env (namespaceOrDefault (ip_Namespace params)) (ip_ActionName params)
                 (platform w) = (Inr route, p1)"
      and cg: "configurations_Get env (namespaceOrDefault (ip_Namespace params)) (ip_ActionName params)
                 p1 = (Inr config, p2)"
      and gw: "istio env \<noteq> []"
  shows "\<exists>w2. platform w2 = p2 \<and>
           invokeActionFunc env params w =
             (case initAction env (istio env) (rst_Domain (rt_Status route))
                     (annotation (om_Annotations (cfg_ObjectMeta config)) ''kwsk_action_code'') w2 of
                (Some errResponder, w3) \<Rightarrow> (Return errResponder, w3)
              | (None, w3) \<Rightarrow>
                  (case runAction env (istio env) (rst_Domain (rt_Status route))
                          (om_Name (cfg_ObjectMeta config)) (namespaceOrDefault (ip_Namespace params))
                          (getActionParameters params) w3 of
                     (responder, w4) \<Rightarrow> (Return responder, w4)))"
proof -
  let ?ns = "namespaceOrDefault (ip_Namespace params)"
  let ?w1 = "\<lparr>platform = p1, calls = calls w @ [RoutesGet ?ns (ip_ActionName params)]\<rparr>"
  let ?w2 = "\<lparr>platform = p2, calls = calls ?w1 @ [ConfigurationsGet ?ns (ip_ActionName params)]\<rparr>"
  have 1: "Routes_Get env ?ns (ip_ActionName params) w = (Inr route, ?w1)"
    using rg by (simp add: Routes_Get_def perform_eq)
  have 2: "Configurations_Get env ?ns (ip_ActionName params) ?w1 = (Inr config, ?w2)"
    using cg by (simp add: Configurations_Get_def perform_eq)
  have "invokeActionFunc env params w =
             (case initAction env (istio env) (rst_Domain (rt_Status route))
                     (annotation (om_Annotations (cfg_ObjectMeta config)) ''kwsk_action_code'') ?w2 of
                (Some errResponder, w3) \<Rightarrow> (Return errResponder, w3)
              | (None, w3) \<Rightarrow>
                  (case runAction env (istio env) (rst_Domain (rt_Status route))
                          (om_Name (cfg_ObjectMeta config)) ?ns
                          (getActionParameters params) w3 of
                     (responder, w4) \<Rightarrow> (Return responder, w4)))"
    unfolding invokeActionFunc_def Let_def using gw by (simp add: 1 2)
  then show ?thesis by (intro exI [of _ ?w2]) simp
qed

lemma invokeActionFunc_run_reached:
  assumes rg: "routes_Get env (namespaceOrDefault (ip_Namespace params)) (ip_ActionName params)
                 (platform w) = (Inr route, p1)"
      and cg: "configurations_Get env (namespaceOrDefault (ip_Namespace params)) (ip_ActionName params)
                 p1 = (Inr config, p2)"
      and gw: "istio env \<noteq> []"
      and ini: "responds env (rst_Domain (rt_Status route)) ''init'' (initMessage config) p2
                  initStatus initBody p3"
      and ok: "initStatus = 403 \<or> initStatus = 200"
      and run: "responds env (rst_Domain (rt_Status route)) ''run'' (runMessage params) p3
                  status resBody p4"
  shows "fst (invokeActionFunc env params w) =
           Return (if status \<noteq> 200 then
                  InvokeActionInternalServerError
                    \<lparr>em_Error = Some (''Error invoking action. Status: '' @ fmt_d status
                                        @ '', Message: '' @ resBody @ [CHR 0x0A])\<rparr>
                else case json_Unmarshal env resBody of
                  Inl err \<Rightarrow>
                    InvokeActionInternalServerError
                      \<lparr>em_Error = Some (''Action invocation result was not valid JSON. Result: ''
                                          @ ''%!s(int='' @ fmt_d status @ '')'' @ [CHR 0x0A]
                                          @ ''%!(EXTRA []uint8='' @ fmt_bytes_v resBody @ '')'')\<rparr>
                | Inr resultJson \<Rightarrow>
                    InvokeActionOK
                      \<lparr>act_ActivationID = Some ''dummyactivationid'',
                       act_Name = Some (om_Name (cfg_ObjectMeta config)),
                       act_Namespace = Some (namespaceOrDefault (ip_Namespace params)),
                       act_Response = Some \<lparr>ar_Result = resultJson, ar_Success = True\<rparr>,
                       act_Logs = []\<rparr>)"
proof -
  from invokeActionFunc_resolved [OF rg cg gw] obtain w2 where w2: "platform w2 = p2"
    and inv: "invokeActionFunc env params w =
             (case initAction env (istio env) (rst_Domain (rt_Status route))
                     (annotation (om_Annotations (cfg_ObjectMeta config)) ''kwsk_action_code'') w2 of
                (Some errResponder, w3) \<Rightarrow> (Return errResponder, w3)
              | (None, w3) \<Rightarrow>
                  (case runAction env (istio env) (rst_Domain (rt_Status route))
                          (om_Name (cfg_ObjectMeta config)) (namespaceOrDefault (ip_Namespace params))
                          (getActionParameters params) w3 of
                     (responder, w4) \<Rightarrow> (Return responder, w4)))"
    by blast
  from ini w2 have "responds env (rst_Domain (rt_Status route)) ''init''
      (InitBody \<lparr>im_Value = \<lparr>iv_Main = ''main'',
         iv_Code = annotation (om_Annotations (cfg_ObjectMeta config)) ''kwsk_action_code''\<rparr>\<rparr>)
      (platform w2) initStatus initBody p3"
    by (simp add: initMessage_def)
  from initAction_responds [OF this ok] obtain w3 where w3: "platform w3 = p3"
    and i: "initAction env (istio env) (rst_Domain (rt_Status route))
              (annotation (om_Annotations (cfg_ObjectMeta config)) ''kwsk_action_code'') w2 = (None, w3)"
    by blast
  from run w3 have "responds env (rst_Domain (rt_Status route)) ''run''
      (RunBody \<lparr>rm_Value = getActionParameters params\<rparr>) (platform w3) status resBody p4"
    by (simp add: runMessage_def)
  from runAction_responds [OF this, of "om_Name (cfg_ObjectMeta config)"
      "namespaceOrDefault (ip_Namespace params)"]
  obtain w4 where r: "runAction env (istio env) (rst_Domain (rt_Status route))
                          (om_Name (cfg_ObjectMeta config)) (namespaceOrDefault (ip_Namespace params))
                          (getActionParameters params) w3 = 
               (if status \<noteq> 200 then
                  InvokeActionInternalServerError
                    \<lparr>em_Error = Some (''Error invoking action. Status: '' @ fmt_d status
                                        @ '', Message: '' @ resBody @ [CHR 0x0A])\<rparr>
                else case json_Unmarshal env resBody of
                  Inl err \<Rightarrow>
                    InvokeActionInternalServerError
                      \<lparr>em_Error = Some (''Action invocation result was not valid JSON. Result: ''
                                          @ ''%!s(int='' @ fmt_d status @ '')'' @ [CHR 0x0A]
                                          @ ''%!(EXTRA []uint8='' @ fmt_bytes_v resBody @ '')'')\<rparr>
                | Inr resultJson \<Rightarrow>
                    InvokeActionOK
                      \<lparr>act_ActivationID = Some ''dummyactivationid'',
                       act_Name = Some (om_Name (cfg_ObjectMeta config)),
                       act_Namespace = Some (namespaceOrDefault (ip_Namespace params)),
                       act_Response = Some \<lparr>ar_Result = resultJson, ar_Success = True\<rparr>,
                       act_Logs = []\<rparr>, w4)"
    by blast
  show ?thesis
    by (simp only: inv i r prod.case option.case fst_conv)
qed

lemma demo_invoke_resolve:
  "routes_Get (memEnv g) (namespaceOrDefault (ip_Namespace (demoInvoke ''my-action'')))
     (ip_ActionName (demoInvoke ''my-action'')) (platform (start (deployed False rs)))
     = (Inr demoRoute, deployed False rs)"
  "configurations_Get (memEnv g) (namespaceOrDefault (ip_Namespace (demoInvoke ''my-action'')))
     (ip_ActionName (demoInvoke ''my-action'')) (deployed False rs)
     = (Inr demoConfig, deployed False rs)"
  by (simp_all add: demoInvoke_def namespaceOrDefault_def mem_ops start_def deployed_def)

lemma demo_responds_init:
  "responds (memEnv g) (rst_Domain (rt_Status demoRoute)) ''init'' (initMessage demoConfig)
     (deployed False (reply s b # rs)) s b (deployed False rs)"
  by (simp add: responds_def mem_ops deployed_def reply_def)

lemma demo_responds_run:
  "responds (memEnv g) (rst_Domain (rt_Status demoRoute)) ''run'' (runMessage (demoInvoke n))
     (deployed False (reply s b # rs)) s b (deployed False rs)"
  by (simp add: responds_def mem_ops deployed_def reply_def)

text \<open>
  C4. When the Route and the Configuration are found, the gateway is set, the init
  endpoint answers 403 and the run endpoint answers 200 with a body that parses as JSON,
  invoke returns OK with an Activation whose response has \<open>success = True\<close> and the
  parsed body as result.
\<close>

theorem invokeActionFunc_init_forbidden_tolerated:
  assumes "routes_Get env (namespaceOrDefault (ip_Namespace params)) (ip_ActionName params)
             (platform w) = (Inr route, p1)"
      and "configurations_Get env (namespaceOrDefault (ip_Namespace params)) (ip_ActionName params)
             p1 = (Inr config, p2)"
      and "istio env \<noteq> []"
      and "responds env (rst_Domain (rt_Status route)) ''init'' (initMessage config) p2 403 initBody p3"
      and "responds env (rst_Domain (rt_Status route)) ''run'' (runMessage params) p3 200 resBody p4"
      and "json_Unmarshal env resBody = Inr resultJson"
  shows "fst (invokeActionFunc env params w) =
           Return (InvokeActionOK
             \<lparr>act_ActivationID = Some ''dummyactivationid'',
              act_Name = Some (om_Name (cfg_ObjectMeta config)),
              act_Namespace = Some (namespaceOrDefault (ip_Namespace params)),
              act_Response = Some \<lparr>ar_Result = resultJson, ar_Success = True\<rparr>,
              act_Logs = []\<rparr>)"
  using invokeActionFunc_run_reached [OF assms(1-4) _ assms(5)] assms(6) by simp

theorem invokeActionFunc_init_forbidden_tolerated_witness:
  "fst (invokeActionFunc (memEnv ''gateway:80'') (demoInvoke ''my-action'')
          (start (deployed False [reply 403 ''already initialized'', reply 200 ''{}''])))
   = Return (InvokeActionOK
       \<lparr>act_ActivationID = Some ''dummyactivationid'', act_Name = Some ''my-action'',
        act_Namespace = Some ''default'',
        act_Response = Some \<lparr>ar_Result = ''{}'', ar_Success = True\<rparr>, act_Logs = []\<rparr>)"
proof -
  have gw: "istio (memEnv ''gateway:80'') \<noteq> []"
    by (simp add: memEnv_def)
  have js: "json_Unmarshal (memEnv ''gateway:80'') ''{}'' = Inr ''{}''"
    by (simp add: memEnv_def mem_json_Unmarshal_def)
  show ?thesis
    using invokeActionFunc_init_forbidden_tolerated
      [OF demo_invoke_resolve gw demo_responds_init demo_responds_run js]
    by (simp add: demoConfig_def demoInvoke_def namespaceOrDefault_def)
qed

lemma fmt_d_502: "fmt_d 502 = ''502''"
  by code_simp

text \<open>
  C6. When the run endpoint is reached (the resources are found, the gateway is set, init
  answered 200 or 403) and answers with a status other than 200, invoke returns an
  InternalError whose message carries the status and the body, and no Activation.
\<close>

theorem invokeActionFunc_run_status_not_ok:
  assumes "routes_Get env (namespaceOrDefault (ip_Namespace params)) (ip_ActionName params)
             (platform w) = (Inr route, p1)"
      and "configurations_Get env (namespaceOrDefault (ip_Namespace params)) (ip_ActionName params)
             p1 = (Inr config, p2)"
      and "istio env \<noteq> []"
      and "responds env (rst_Domain (rt_Status route)) ''init'' (initMessage config) p2
             initStatus initBody p3"
      and "initStatus = 403 \<or> initStatus = 200"
      and "responds env (rst_Domain (rt_Status route)) ''run'' (runMessage params) p3 status resBody p4"
      and "status \<noteq> 200"
  shows "fst (invokeActionFunc env params w) =
           Return (InvokeActionInternalServerError
             \<lparr>em_Error = Some (''Error invoking action. Status: '' @ fmt_d status
                                 @ '', Message: '' @ resBody @ [CHR 0x0A])\<rparr>)
         \<and> (\<forall>activation. fst (invokeActionFunc env params w) \<noteq> Return (InvokeActionOK activation))"
  using invokeActionFunc_run_reached [OF assms(1-6)] assms(7) by simp

theorem invokeActionFunc_run_status_not_ok_witness:
  "fst (invokeActionFunc (memEnv ''gateway:80'') (demoInvoke ''my-action'')
          (start (deployed False [reply 200 ''ok'', reply 502 ''bad gateway''])))
   = Return (InvokeActionInternalServerError
       \<lparr>em_Error = Some (''Error invoking action. Status: 502, Message: bad gateway'' @ [CHR 0x0A])\<rparr>)"
proof -
  have gw: "istio (memEnv ''gateway:80'') \<noteq> []"
    by (simp add: memEnv_def)
  have st: "(200::int) = 403 \<or> (200::int) = 200" and ne: "(502::int) \<noteq> 200"
    by simp_all
  show ?thesis
    using invokeActionFunc_run_status_not_ok
      [OF demo_invoke_resolve gw demo_responds_init st demo_responds_run ne]
    by (simp add: fmt_d_502)
qed

lemma fmt_d_200: "fmt_d 200 = ''200''"
  by code_simp

lemma fmt_bytes_hi: "fmt_bytes_v ''hi'' = ''[104 105]''"
  by code_simp

text \<open>
  C7. When the run endpoint is reached and answers 200 with a body that does not parse as
  JSON, invoke returns an InternalError and no Activation.
\<close>

theorem invokeActionFunc_run_body_not_json:
  assumes "routes_Get env (namespaceOrDefault (ip_Namespace params)) (ip_ActionName params)
             (platform w) = (Inr route, p1)"
      and "configurations_Get env (namespaceOrDefault (ip_Namespace params)) (ip_ActionName params)
             p1 = (Inr config, p2)"
      and "istio env \<noteq> []"
      and "responds env (rst_Domain (rt_Status route)) ''init'' (initMessage config) p2
             initStatus initBody p3"
      and "initStatus = 403 \<or> initStatus = 200"
      and "responds env (rst_Domain (rt_Status route)) ''run'' (runMessage params) p3 200 resBody p4"
      and "json_Unmarshal env resBody = Inl err"
  shows "fst (invokeActionFunc env params w) =
           Return (InvokeActionInternalServerError
             \<lparr>em_Error = Some (''Action invocation result was not valid JSON. Result: ''
                                 @ ''%!s(int='' @ fmt_d 200 @ '')'' @ [CHR 0x0A]
                                 @ ''%!(EXTRA []uint8='' @ fmt_bytes_v resBody @ '')'')\<rparr>)
         \<and> (\<forall>activation. fst (invokeActionFunc env params w) \<noteq> Return (InvokeActionOK activation))"
  using invokeActionFunc_run_reached [OF assms(1-6)] assms(7) by simp

theorem invokeActionFunc_run_body_not_json_witness:
  "fst (invokeActionFunc (memEnv ''gateway:80'') (demoInvoke ''my-action'')
          (start (deployed False [reply 403 [], reply 200 ''hi''])))
   = Return (InvokeActionInternalServerError
       \<lparr>em_Error = Some (''Action invocation result was not valid JSON. Result: %!s(int=200)''
                           @ [CHR 0x0A] @ ''%!(EXTRA []uint8=[104 105])'')\<rparr>)"
proof -
  have gw: "istio (memEnv ''gateway:80'') \<noteq> []"
    by (simp add: memEnv_def)
  have st: "(403::int) = 403 \<or> (403::int) = 200"
    by simp
  have js: "json_Unmarshal (memEnv ''gateway:80'') ''hi'' = Inl (plainError ''invalid character'')"
    by (simp add: memEnv_def mem_json_Unmarshal_def)
  show ?thesis
    using invokeActionFunc_run_body_not_json
      [OF demo_invoke_resolve gw demo_responds_init st demo_responds_run js]
    by (simp add: fmt_d_200 fmt_bytes_hi)
qed

text \<open>
  C8, as amended. With an empty gateway address no invocation succeeds and none sends a
  request to the action host: invoke never returns an Activation and the calls it issues
  contain no HTTP request. The handler aborts (panics) once the Route and the
  Configuration have been fetched; an invocation whose Route or Configuration fetch fails
  has returned NotFound or InternalError before the gateway is looked at, and does not
  abort.
\<close>

theorem invokeActionFunc_missing_gateway:
  assumes "istio env = []"
  shows "(\<forall>activation. fst (invokeActionFunc env params w) \<noteq> Return (InvokeActionOK activation))
         \<and> list_all (\<lambda>c. \<not> isHTTPDo c) (issued w (invokeActionFunc env params w))
         \<and> (\<forall>route p1 config p2.
               routes_Get env (namespaceOrDefault (ip_Namespace params)) (ip_ActionName params)
                 (platform w) = (Inr route, p1)
               \<and> configurations_Get env (namespaceOrDefault (ip_Namespace params))
                   (ip_ActionName params) p1 = (Inr config, p2)
               \<longrightarrow> fst (invokeActionFunc env params w)
                     = Panic ''Istio host and port must be provided via --istio flag to invoke actions'')
         \<and> (\<forall>err p1.
               routes_Get env (namespaceOrDefault (ip_Namespace params)) (ip_ActionName params)
                 (platform w) = (Inl err, p1)
               \<longrightarrow> fst (invokeActionFunc env params w)
                     = Return (if errors_IsNotFound err
                               then InvokeActionNotFound \<lparr>em_Error = Some (err_Error err)\<rparr>
                               else InvokeActionInternalServerError \<lparr>em_Error = Some (err_Error err)\<rparr>))
         \<and> (\<forall>route p1 err p2.
               routes_Get env (namespaceOrDefault (ip_Namespace params)) (ip_ActionName params)
                 (platform w) = (Inr route, p1)
               \<and> configurations_Get env (namespaceOrDefault (ip_Namespace params))
                   (ip_ActionName params) p1 = (Inl err, p2)
               \<longrightarrow> fst (invokeActionFunc env params w)
                     = Return (if errors_IsNotFound err
                               then InvokeActionNotFound \<lparr>em_Error = Some (err_Error err)\<rparr>
                               else InvokeActionInternalServerError \<lparr>em_Error = Some (err_Error err)\<rparr>))"
  using assms
  by (auto simp: invokeActionFunc_def Let_def Routes_Get_def Configurations_Get_def perform_def
        issued_def errorMessageFromErr_def split: prod.splits sum.splits)

theorem invokeActionFunc_missing_gateway_witness:
  "invokeActionFunc (memEnv []) (demoInvoke ''my-action'')
          (start (deployed False [reply 403 [], reply 200 ''{}'']))
   = (Panic ''Istio host and port must be provided via --istio flag to invoke actions'',
      \<lparr>platform = deployed False [reply 403 [], reply 200 ''{}''],
       calls = [RoutesGet ''default'' ''my-action'', ConfigurationsGet ''default'' ''my-action'']\<rparr>)
   \<and> list_all (\<lambda>c. \<not> isHTTPDo c)
        (issued (start (deployed False [reply 403 [], reply 200 ''{}'']))
           (invokeActionFunc (memEnv []) (demoInvoke ''my-action'')
              (start (deployed False [reply 403 [], reply 200 ''{}'']))))"
proof -
  have gw: "istio (memEnv []) = []"
    by (simp add: memEnv_def)
  have ev: "invokeActionFunc (memEnv []) (demoInvoke ''my-action'')
          (start (deployed False [reply 403 [], reply 200 ''{}'']))
   = (Panic ''Istio host and port must be provided via --istio flag to invoke actions'',
      \<lparr>platform = deployed False [reply 403 [], reply 200 ''{}''],
       calls = [RoutesGet ''default'' ''my-action'', ConfigurationsGet ''default'' ''my-action'']\<rparr>)"
    by (simp add: invokeActionFunc_def Let_def demoInvoke_def namespaceOrDefault_def client_ops
          mem_ops deployed_def)
  show ?thesis
    using invokeActionFunc_missing_gateway [OF gw, of "demoInvoke ''my-action''"
      "start (deployed False [reply 403 [], reply 200 ''{}''])"] ev
    by simp
qed

text \<open>
  The claim as it was stated has every invocation abort when the gateway is empty. On a
  platform that does not hold the Route, invoke returns NotFound and does not panic,
  although the gateway is empty.
\<close>

theorem invokeActionFunc_missing_gateway_counterexample:
  "istio (memEnv []) = []
   \<and> invokeActionFunc (memEnv []) (demoInvoke ''missing'') (start (deployed False []))
     = (Return (InvokeActionNotFound \<lparr>em_Error = Some ''missing not found''\<rparr>),
        \<lparr>platform = deployed False [], calls = [RoutesGet ''default'' ''missing'']\<rparr>)
   \<and> fst (invokeActionFunc (memEnv []) (demoInvoke ''missing'') (start (deployed False [])))
     \<noteq> Panic ''Istio host and port must be provided via --istio flag to invoke actions''"
proof -
  have ev: "invokeActionFunc (memEnv []) (demoInvoke ''missing'') (start (deployed False []))
     = (Return (InvokeActionNotFound \<lparr>em_Error = Some ''missing not found''\<rparr>),
        \<lparr>platform = deployed False [], calls = [RoutesGet ''default'' ''missing'']\<rparr>)"
    by (simp add: invokeActionFunc_def Let_def demoInvoke_def namespaceOrDefault_def client_ops
          mem_ops deployed_def errorMessageFromErr_def errors_IsNotFound_def)
  show ?thesis
    unfolding ev by (simp add: memEnv_def)
qed

lemma invokeActionFunc_fetch_errors:
  "routes_Get env (namespaceOrDefault (ip_Namespace params)) (ip_ActionName params) (platform w)
     = (Inl err, p1) \<Longrightarrow>
   invokeActionFunc env params w =
     (Return (if errors_IsNotFound err then InvokeActionNotFound \<lparr>em_Error = Some (err_Error err)\<rparr>
              else InvokeActionInternalServerError \<lparr>em_Error = Some (err_Error err)\<rparr>),
      \<lparr>platform = p1,
       calls = calls w @ [RoutesGet (namespaceOrDefault (ip_Namespace params)) (ip_ActionName params)]\<rparr>)"
  "routes_Get env (namespaceOrDefault (ip_Namespace params)) (ip_ActionName params) (platform w)
     = (Inr route, p1) \<Longrightarrow>
   configurations_Get env (namespaceOrDefault (ip_Namespace params)) (ip_ActionName params) p1
     = (Inl err, p2) \<Longrightarrow>
   invokeActionFunc env params w =
     (Return (if errors_IsNotFound err then InvokeActionNotFound \<lparr>em_Error = Some (err_Error err)\<rparr>
              else InvokeActionInternalServerError \<lparr>em_Error = Some (err_Error err)\<rparr>),
      \<lparr>platform = p2,
       calls = calls w @ [RoutesGet (namespaceOrDefault (ip_Namespace params)) (ip_ActionName params),
                          ConfigurationsGet (namespaceOrDefault (ip_Namespace params))
                            (ip_ActionName params)]\<rparr>)"
  by (simp_all add: invokeActionFunc_def Let_def Routes_Get_def Configurations_Get_def perform_def
        errorMessageFromErr_def)

text \<open>
  C1. On the in-memory platform, creating the action \<^verbatim>\<open>My Action\<close> stores a Configuration
  and a Route named \<^verbatim>\<open>my-action\<close>, and Get finds the action under \<^verbatim>\<open>My Action\<close>. Invoke
  asks the platform for the Route \<^verbatim>\<open>My Action\<close>, the name as the caller wrote it, and
  answers NotFound.
\<close>

theorem invokeActionFunc_looks_up_raw_name:
  "updateActionFunc (memEnv ''gateway:80'') demoUpdate
       (start \<lparr>mp_configurations = [], mp_routes = [], mp_routes_failing = False,
               mp_replies = [reply 200 [], reply 200 ''{}'']\<rparr>)
     = (UpdateActionOK (configToAction demoConfig),
        \<lparr>platform = deployed False [reply 200 [], reply 200 ''{}''],
         calls = [ConfigurationsCreate ''default'' demoConfig,
                  RoutesCreate ''default'' (demoRoute\<lparr>rt_Status := \<lparr>rst_Domain = []\<rparr>\<rparr>),
                  ConfigurationsGet ''default'' ''my-action'']\<rparr>)
   \<and> getActionByNameFunc (memEnv ''gateway:80'')
         \<lparr>gp_ActionName = ''My Action'', gp_Namespace = ''_''\<rparr>
         (start (deployed False [reply 200 [], reply 200 ''{}'']))
     = (GetActionByNameOK (configToAction demoConfig),
        \<lparr>platform = deployed False [reply 200 [], reply 200 ''{}''],
         calls = [ConfigurationsGet ''default'' ''my-action'']\<rparr>)
   \<and> invokeActionFunc (memEnv ''gateway:80'') (demoInvoke ''My Action'')
         (start (deployed False [reply 200 [], reply 200 ''{}'']))
     = (Return (InvokeActionNotFound \<lparr>em_Error = Some ''My Action not found''\<rparr>),
        \<lparr>platform = deployed False [reply 200 [], reply 200 ''{}''],
         calls = [RoutesGet ''default'' ''My Action'']\<rparr>)"
proof -
  have g: "getActionByNameFunc (memEnv ''gateway:80'')
         \<lparr>gp_ActionName = ''My Action'', gp_Namespace = ''_''\<rparr>
         (start (deployed False [reply 200 [], reply 200 ''{}'']))
     = (GetActionByNameOK (configToAction demoConfig),
        \<lparr>platform = deployed False [reply 200 [], reply 200 ''{}''],
         calls = [ConfigurationsGet ''default'' ''my-action'']\<rparr>)"
    by (simp add: getActionByNameFunc_def getActionByName_def Let_def sanitize_My_Action
          namespaceOrDefault_def client_ops mem_ops deployed_def)
  have i: "invokeActionFunc (memEnv ''gateway:80'') (demoInvoke ''My Action'')
         (start (deployed False [reply 200 [], reply 200 ''{}'']))
     = (Return (InvokeActionNotFound \<lparr>em_Error = Some ''My Action not found''\<rparr>),
        \<lparr>platform = deployed False [reply 200 [], reply 200 ''{}''],
         calls = [RoutesGet ''default'' ''My Action'']\<rparr>)"
    by (simp add: invokeActionFunc_def Let_def demoInvoke_def namespaceOrDefault_def client_ops
          mem_ops deployed_def errorMessageFromErr_def errors_IsNotFound_def)
  from demo_update g i show ?thesis by simp
qed

end
